theory Spec2Isabelle
  imports Main "HOL-Library.Sublist"
begin

section \<open>JavaScript values and the platform functions the components call\<close>

text \<open>
  The two components of \<^verbatim>\<open>src/components/AITextChat.tsx\<close> (\<^verbatim>\<open>AITextChat\<close> and
  \<^verbatim>\<open>ConversationImageAnalyzer\<close>) are embedded as functions from a component state and the
  environment's inputs of one handler run (clock readings, the upstream reply, the result of a
  file read) to the new state and the list of effects the handler emits.

  A \<^typ>\<open>string\<close> is a JavaScript string, one \<^typ>\<open>char\<close> for each UTF-16 code unit; the
  model covers the texts whose code units are below 256. TypeScript's types are erased at run
  time, so whatever the upstream service returns is a JSON value: the type \<open>json\<close>, with
  \<open>None :: json option\<close> for \<^verbatim>\<open>undefined\<close>. A number is kept as its literal; its double value
  is not modelled.
\<close>

datatype json =
    JNull
  | JBool bool
  | JNum string
  | JStr string
  | JArr "json list"
  | JObj "(string \<times> json) list"

type_synonym jsval = "json option"

datatype error =
    TransportError
  | HttpError nat
  | SyntaxError
  | TypeError
  | NoJSONFound

subsection \<open>\<^verbatim>\<open>JSON.parse\<close>\<close>

text \<open>
  \<^verbatim>\<open>JSON.parse\<close> and \<^verbatim>\<open>response.json()\<close> are functions of the platform. They are modelled after
  the JSON grammar (ECMA-404): a lexer, and a stack automaton over the tokens. \<open>None\<close> is the
  \<^verbatim>\<open>SyntaxError\<close> the platform throws. An escape \<^verbatim>\<open>\uXXXX\<close> of a code unit above 255 has no
  value in \<^typ>\<open>char\<close> and is rejected; such texts are outside the model.
\<close>

datatype token =
    TLBrace | TRBrace | TLBrack | TRBrack | TColon | TComma
  | TStr string | TNum string | TTrue | TFalse | TNull

definition json_ws :: "char \<Rightarrow> bool" where
  "json_ws c = (c = CHR '' '' \<or> c = CHR 0x09 \<or> c = CHR 0x0A \<or> c = CHR 0x0D)"

definition code :: "char \<Rightarrow> nat" where
  "code c = of_char c"

definition digit :: "char \<Rightarrow> bool" where
  "digit c = (48 \<le> code c \<and> code c \<le> 57)"

definition hex_value :: "char \<Rightarrow> nat option" where
  "hex_value c =
     (if 48 \<le> code c \<and> code c \<le> 57 then Some (code c - 48)
      else if 97 \<le> code c \<and> code c \<le> 102 then Some (code c - 87)
      else if 65 \<le> code c \<and> code c \<le> 70 then Some (code c - 55)
      else None)"

definition unescape :: "char \<Rightarrow> char option" where
  "unescape e =
     (if e = CHR 0x22 then Some (CHR 0x22)
      else if e = CHR 0x5C then Some (CHR 0x5C)
      else if e = CHR ''/'' then Some (CHR ''/'')
      else if e = CHR ''b'' then Some (CHR 0x08)
      else if e = CHR ''f'' then Some (CHR 0x0C)
      else if e = CHR ''n'' then Some (CHR 0x0A)
      else if e = CHR ''r'' then Some (CHR 0x0D)
      else if e = CHR ''t'' then Some (CHR 0x09)
      else None)"

definition unicode_escape :: "string \<Rightarrow> char option" where
  "unicode_escape hs =
     (case map hex_value hs of
        [Some a, Some b, Some c, Some d] \<Rightarrow>
          (if a = 0 \<and> b = 0 then Some (char_of (16 * c + d)) else None)
      | _ \<Rightarrow> None)"

text \<open>The body of a string literal, after its opening quote: the decoded string and the rest.\<close>

fun lex_string :: "string \<Rightarrow> string \<Rightarrow> (string \<times> string) option" where
  "lex_string acc [] = None"
| "lex_string acc (c # cs) =
     (if c = CHR 0x22 then Some (rev acc, cs)
      else if c = CHR 0x5C then
        (case cs of
           [] \<Rightarrow> None
         | e # es \<Rightarrow>
             (if e = CHR ''u'' then
                (case unicode_escape (take 4 es) of
                   None \<Rightarrow> None
                 | Some d \<Rightarrow> lex_string (d # acc) (drop 4 es))
              else
                (case unescape e of
                   None \<Rightarrow> None
                 | Some d \<Rightarrow> lex_string (d # acc) es)))
      else if code c < 32 then None
      else lex_string (c # acc) cs)"

definition num_char :: "char \<Rightarrow> bool" where
  "num_char c = (digit c \<or> c = CHR ''-'' \<or> c = CHR ''+'' \<or> c = CHR ''.'' \<or> c = CHR ''e'' \<or> c = CHR ''E'')"

text \<open>The number grammar: \<^verbatim>\<open>-? (0 | [1-9][0-9]*) (\.[0-9]+)? ([eE][+-]?[0-9]+)?\<close>.\<close>

definition valid_exponent :: "string \<Rightarrow> bool" where
  "valid_exponent s =
     (case s of
        [] \<Rightarrow> True
      | e # r \<Rightarrow>
          (e = CHR ''e'' \<or> e = CHR ''E'') \<and>
          (let ds = (case r of
                       [] \<Rightarrow> []
                     | sg # r2 \<Rightarrow> if sg = CHR ''+'' \<or> sg = CHR ''-'' then r2 else r)
           in ds \<noteq> [] \<and> list_all digit ds))"

definition valid_fraction :: "string \<Rightarrow> bool" where
  "valid_fraction s =
     (case s of
        [] \<Rightarrow> True
      | d # r \<Rightarrow>
          if d = CHR ''.'' then takeWhile digit r \<noteq> [] \<and> valid_exponent (dropWhile digit r)
          else valid_exponent s)"

definition valid_number :: "string \<Rightarrow> bool" where
  "valid_number lit =
     (let s = (case lit of [] \<Rightarrow> [] | m # r \<Rightarrow> if m = CHR ''-'' then r else lit);
          ip = takeWhile digit s
      in (ip = ''0'' \<or> (ip \<noteq> [] \<and> hd ip \<noteq> CHR ''0'')) \<and> valid_fraction (dropWhile digit s))"

lemma lex_string_shorter: "lex_string acc s = Some (v, r) \<Longrightarrow> length r \<le> length s"
proof (induction acc s rule: lex_string.induct)
  case (1 acc)
  then show ?case by simp
next
  case (2 acc c cs)
  show ?case
  proof (cases "c = CHR 0x22")
    case True
    with "2.prems" show ?thesis by simp
  next
    case quote: False
    show ?thesis
    proof (cases "c = CHR 0x5C")
      case True
      with quote "2.prems" "2.IH"(1,2) show ?thesis
        by (fastforce split: list.splits option.splits if_splits)
    next
      case False
      with quote "2.prems" "2.IH"(3) show ?thesis
        by (fastforce split: if_splits)
    qed
  qed
qed

function lex :: "string \<Rightarrow> token list option" where
  "lex [] = Some []"
| "lex (c # cs) =
     (if json_ws c then lex cs
      else if c = CHR ''{'' then map_option ((#) TLBrace) (lex cs)
      else if c = CHR ''}'' then map_option ((#) TRBrace) (lex cs)
      else if c = CHR ''['' then map_option ((#) TLBrack) (lex cs)
      else if c = CHR '']'' then map_option ((#) TRBrack) (lex cs)
      else if c = CHR '':'' then map_option ((#) TColon) (lex cs)
      else if c = CHR '','' then map_option ((#) TComma) (lex cs)
      else if c = CHR 0x22 then
        (case lex_string [] cs of
           None \<Rightarrow> None
         | Some (s, rest) \<Rightarrow> map_option ((#) (TStr s)) (lex rest))
      else if c = CHR ''-'' \<or> digit c then
        (if valid_number (c # takeWhile num_char cs)
         then map_option ((#) (TNum (c # takeWhile num_char cs))) (lex (dropWhile num_char cs))
         else None)
      else if take 4 (c # cs) = ''true'' then map_option ((#) TTrue) (lex (drop 3 cs))
      else if take 5 (c # cs) = ''false'' then map_option ((#) TFalse) (lex (drop 4 cs))
      else if take 4 (c # cs) = ''null'' then map_option ((#) TNull) (lex (drop 3 cs))
      else None)"
  by pat_completeness auto
termination
proof (relation "measure length")
  show "wf (measure length)" by simp
next
  fix c cs x2 x y
  assume "lex_string [] cs = Some x2" "(x, y) = x2"
  then have "lex_string [] cs = Some (x, y)" by simp
  then have "length y \<le> length cs" by (rule lex_string_shorter)
  then show "(y, c # cs) \<in> measure length" by simp
qed (auto simp: length_dropWhile_le less_Suc_eq_le)

text \<open>
  The automaton keeps the open containers on a stack. Members and elements are kept in source
  order; a property read takes the last member of a name, as a later duplicate overwrites an
  earlier one.
\<close>

datatype frame =
    FArr "json list"
  | FObj "(string \<times> json) list" "string option"

datatype pmode =
    WantValue
  | WantValueOrEnd
  | WantKeyOrEnd
  | WantKey
  | WantColon
  | WantCommaOrEnd
  | Finished json

type_synonym pstate = "frame list \<times> pmode"

fun deliver :: "frame list \<Rightarrow> json \<Rightarrow> pstate option" where
  "deliver [] v = Some ([], Finished v)"
| "deliver (FArr xs # st) v = Some (FArr (xs @ [v]) # st, WantCommaOrEnd)"
| "deliver (FObj kvs (Some k) # st) v = Some (FObj (kvs @ [(k, v)]) None # st, WantCommaOrEnd)"
| "deliver (FObj kvs None # st) v = None"

definition wants_value :: "pmode \<Rightarrow> bool" where
  "wants_value m = (m = WantValue \<or> m = WantValueOrEnd)"

fun pstep :: "pstate \<Rightarrow> token \<Rightarrow> pstate option" where
  "pstep (st, m) TLBrace = (if wants_value m then Some (FObj [] None # st, WantKeyOrEnd) else None)"
| "pstep (st, m) TLBrack = (if wants_value m then Some (FArr [] # st, WantValueOrEnd) else None)"
| "pstep (st, m) (TNum l) = (if wants_value m then deliver st (JNum l) else None)"
| "pstep (st, m) TTrue = (if wants_value m then deliver st (JBool True) else None)"
| "pstep (st, m) TFalse = (if wants_value m then deliver st (JBool False) else None)"
| "pstep (st, m) TNull = (if wants_value m then deliver st JNull else None)"
| "pstep (st, m) (TStr s) =
     (if wants_value m then deliver st (JStr s)
      else if m = WantKeyOrEnd \<or> m = WantKey then
        (case st of
           FObj kvs None # st' \<Rightarrow> Some (FObj kvs (Some s) # st', WantColon)
         | _ \<Rightarrow> None)
      else None)"
| "pstep (st, m) TColon = (if m = WantColon then Some (st, WantValue) else None)"
| "pstep (st, m) TComma =
     (if m = WantCommaOrEnd then
        (case st of
           FArr xs # st' \<Rightarrow> Some (st, WantValue)
         | FObj kvs None # st' \<Rightarrow> Some (st, WantKey)
         | _ \<Rightarrow> None)
      else None)"
| "pstep (st, m) TRBrack =
     (if m = WantValueOrEnd \<or> m = WantCommaOrEnd then
        (case st of
           FArr xs # st' \<Rightarrow> deliver st' (JArr xs)
         | _ \<Rightarrow> None)
      else None)"
| "pstep (st, m) TRBrace =
     (if m = WantKeyOrEnd \<or> m = WantCommaOrEnd then
        (case st of
           FObj kvs None # st' \<Rightarrow> deliver st' (JObj kvs)
         | _ \<Rightarrow> None)
      else None)"

fun prun :: "pstate \<Rightarrow> token list \<Rightarrow> pstate option" where
  "prun p [] = Some p"
| "prun p (t # ts) = (case pstep p t of None \<Rightarrow> None | Some p' \<Rightarrow> prun p' ts)"

definition JSON_parse :: "string \<Rightarrow> json option" where
  "JSON_parse text =
     (case lex text of
        None \<Rightarrow> None
      | Some ts \<Rightarrow>
          (case prun ([], WantValue) ts of
             Some ([], Finished v) \<Rightarrow> Some v
           | _ \<Rightarrow> None))"

subsection \<open>Strings, numbers and property reads\<close>

text \<open>\<^verbatim>\<open>String.prototype.trim\<close> removes white space and line terminators from both ends.\<close>

definition js_whitespace :: "char \<Rightarrow> bool" where
  "js_whitespace c = ((9 \<le> code c \<and> code c \<le> 13) \<or> code c = 32 \<or> code c = 160)"

definition trim :: "string \<Rightarrow> string" where
  "trim s = rev (dropWhile js_whitespace (rev (dropWhile js_whitespace s)))"

definition startsWith :: "string \<Rightarrow> string \<Rightarrow> bool" where
  "startsWith s p = (take (length p) s = p)"

text \<open>
  \<^verbatim>\<open>toLowerCase\<close> on code units below 256: the capital letters (\<^verbatim>\<open>A\<close> to \<^verbatim>\<open>Z\<close>, and 192 to
  222 but 215) move up by 32, which sets their bit of weight 32.
\<close>

definition lower_char :: "char \<Rightarrow> char" where
  "lower_char c =
     (if (65 \<le> code c \<and> code c \<le> 90) \<or> (192 \<le> code c \<and> code c \<le> 222 \<and> code c \<noteq> 215)
      then (case c of Char b0 b1 b2 b3 b4 b5 b6 b7 \<Rightarrow> Char b0 b1 b2 b3 b4 True b6 b7)
      else c)"

definition toLowerCase :: "string \<Rightarrow> string" where
  "toLowerCase s = map lower_char s"

text \<open>\<^verbatim>\<open>Number.prototype.toString\<close> on the integers that \<^verbatim>\<open>Date.now()\<close> returns.\<close>

definition digit_char :: "nat \<Rightarrow> char" where
  "digit_char d = ''0123456789'' ! d"

function digits :: "nat \<Rightarrow> string" where
  "digits n = (if n < 10 then [digit_char n] else digits (n div 10) @ [digit_char (n mod 10)])"
  by pat_completeness auto
termination
  by (relation "measure (\<lambda>n. n)") auto

declare digits.simps [simp del]

definition toString :: "int \<Rightarrow> string" where
  "toString n = (if n < 0 then CHR ''-'' # digits (nat (- n)) else digits (nat n))"

text \<open>
  Truthiness. A number is falsy when it is zero; the literal decides it by its mantissa (a
  literal that underflows to zero is not recognised, and no value the components test is a
  number).
\<close>

definition zero_literal :: "string \<Rightarrow> bool" where
  "zero_literal l =
     list_all (\<lambda>c. c = CHR ''0'' \<or> c = CHR ''-'' \<or> c = CHR ''.'')
       (takeWhile (\<lambda>c. c \<noteq> CHR ''e'' \<and> c \<noteq> CHR ''E'') l)"

fun truthy :: "jsval \<Rightarrow> bool" where
  "truthy None = False"
| "truthy (Some JNull) = False"
| "truthy (Some (JBool b)) = b"
| "truthy (Some (JNum l)) = (\<not> zero_literal l)"
| "truthy (Some (JStr s)) = (s \<noteq> [])"
| "truthy (Some (JArr xs)) = True"
| "truthy (Some (JObj kvs)) = True"

text \<open>
  A read \<^verbatim>\<open>v.name\<close> of a property that no prototype defines (every name the components read:
  \<^verbatim>\<open>choices\<close>, \<^verbatim>\<open>message\<close>, \<^verbatim>\<open>content\<close>, the fields of the analysis result, ...): a
  \<^verbatim>\<open>TypeError\<close> on \<^verbatim>\<open>undefined\<close> and \<^verbatim>\<open>null\<close>, the last member of that name on an object,
  \<^verbatim>\<open>undefined\<close> on every other value.
\<close>

fun get_prop :: "jsval \<Rightarrow> string \<Rightarrow> error + jsval" where
  "get_prop None name = Inl TypeError"
| "get_prop (Some JNull) name = Inl TypeError"
| "get_prop (Some (JObj kvs)) name = Inr (map_of (rev kvs) name)"
| "get_prop (Some v) name = Inr None"

text \<open>The read \<^verbatim>\<open>v[0]\<close>.\<close>

fun get_index0 :: "jsval \<Rightarrow> error + jsval" where
  "get_index0 None = Inl TypeError"
| "get_index0 (Some JNull) = Inl TypeError"
| "get_index0 (Some (JArr xs)) = Inr (case xs of [] \<Rightarrow> None | x # _ \<Rightarrow> Some x)"
| "get_index0 (Some (JStr s)) = Inr (case s of [] \<Rightarrow> None | c # _ \<Rightarrow> Some (JStr [c]))"
| "get_index0 (Some (JObj kvs)) = Inr (map_of (rev kvs) ''0'')"
| "get_index0 (Some v) = Inr None"

text \<open>The optional reads \<^verbatim>\<open>v?.name\<close> and \<^verbatim>\<open>v?.[0]\<close>.\<close>

definition opt_prop :: "jsval \<Rightarrow> string \<Rightarrow> error + jsval" where
  "opt_prop v name = (if v = None \<or> v = Some JNull then Inr None else get_prop v name)"

definition opt_index0 :: "jsval \<Rightarrow> error + jsval" where
  "opt_index0 v = (if v = None \<or> v = Some JNull then Inr None else get_index0 v)"

text \<open>
  The conversion to a string that a template literal and \<^verbatim>\<open>+\<close> apply. An object whose own
  \<^verbatim>\<open>toString\<close> member is JSON data has no callable conversion: a \<^verbatim>\<open>TypeError\<close>. An array is
  joined with commas, \<^verbatim>\<open>null\<close> elements as empty strings. A number is rendered by its literal.
\<close>

fun js_to_string :: "json \<Rightarrow> error + string"
  and js_join :: "string \<Rightarrow> json list \<Rightarrow> error + string" where
  "js_to_string JNull = Inr ''null''"
| "js_to_string (JBool b) = Inr (if b then ''true'' else ''false'')"
| "js_to_string (JNum l) = Inr l"
| "js_to_string (JStr s) = Inr s"
| "js_to_string (JArr xs) = js_join '','' xs"
| "js_to_string (JObj kvs) =
     (if map_of kvs ''toString'' = None then Inr ''[object Object]'' else Inl TypeError)"
| "js_join sep [] = Inr []"
| "js_join sep (x # xs) =
     (case (if x = JNull then Inr [] else js_to_string x) of
        Inl e \<Rightarrow> Inl e
      | Inr s \<Rightarrow>
          (if xs = [] then Inr s
           else (case js_join sep xs of Inl e \<Rightarrow> Inl e | Inr r \<Rightarrow> Inr (s @ sep @ r))))"

definition to_string :: "jsval \<Rightarrow> error + string" where
  "to_string v = (case v of None \<Rightarrow> Inr ''undefined'' | Some j \<Rightarrow> js_to_string j)"

text \<open>\<^verbatim>\<open>v.join(sep)\<close>: only an array has a callable \<^verbatim>\<open>join\<close>.\<close>

definition call_join :: "jsval \<Rightarrow> string \<Rightarrow> error + string" where
  "call_join v sep = (case v of Some (JArr xs) \<Rightarrow> js_join sep xs | _ \<Rightarrow> Inl TypeError)"

text \<open>\<^verbatim>\<open>v.toLowerCase()\<close>: only a string has a callable \<^verbatim>\<open>toLowerCase\<close>.\<close>

definition call_toLowerCase :: "jsval \<Rightarrow> error + string" where
  "call_toLowerCase v = (case v of Some (JStr s) \<Rightarrow> Inr (toLowerCase s) | _ \<Rightarrow> Inl TypeError)"

text \<open>The pieces of a template literal, evaluated from left to right.\<close>

fun template :: "(error + string) list \<Rightarrow> error + string" where
  "template [] = Inr []"
| "template (p # ps) =
     (case p of
        Inl e \<Rightarrow> Inl e
      | Inr s \<Rightarrow> (case template ps of Inl e \<Rightarrow> Inl e | Inr r \<Rightarrow> Inr (s @ r)))"

subsection \<open>\<^verbatim>\<open>fetch\<close>, toasts and the other effects\<close>

text \<open>
  What one \<^verbatim>\<open>fetch\<close> gives back: a rejected promise, or a response with its status and body.
\<close>

datatype fetch_result =
    NetworkFailure
  | Response nat string

definition ok :: "nat \<Rightarrow> bool" where
  "ok status = (200 \<le> status \<and> status \<le> 299)"

datatype variant = Default | Destructive

datatype description =
    Text string
  | TextWithMessage string error

datatype effect =
    Fetch string
  | Toast string description variant
  | ConsoleError error
  | ReadAsDataURL
  | SetTimeout nat
  | Uncaught error

definition openrouter_url :: string where
  "openrouter_url = ''https://openrouter.ai/api/v1/chat/completions''"

text \<open>The vision endpoint; the key in its query string is left out.\<close>

definition vision_url :: string where
  "vision_url = ''https://vision.googleapis.com/v1/images:annotate''"

text \<open>
  The steps both components take after a chat-completion \<^verbatim>\<open>fetch\<close>: the status check,
  \<^verbatim>\<open>response.json()\<close> and the read \<^verbatim>\<open>result.choices[0].message.content\<close>.
\<close>

definition completionContent :: "json \<Rightarrow> error + jsval" where
  "completionContent result =
     (case get_prop (Some result) ''choices'' of
        Inl e \<Rightarrow> Inl e
      | Inr choices \<Rightarrow>
          (case get_index0 choices of
             Inl e \<Rightarrow> Inl e
           | Inr first \<Rightarrow>
               (case get_prop first ''message'' of
                  Inl e \<Rightarrow> Inl e
                | Inr message \<Rightarrow> get_prop message ''content'')))"

definition readCompletion :: "fetch_result \<Rightarrow> error + jsval" where
  "readCompletion r =
     (case r of
        NetworkFailure \<Rightarrow> Inl TransportError
      | Response status body \<Rightarrow>
          (if \<not> ok status then Inl (HttpError status)
           else (case JSON_parse body of
                   None \<Rightarrow> Inl SyntaxError
                 | Some result \<Rightarrow> completionContent result)))"

section \<open>The message log\<close>

datatype msg_type = User | AI | Seller

text \<open>
  A chat entry. The fields \<open>id_msg\<close> and \<open>type_msg\<close> are the source's \<^verbatim>\<open>id\<close> and \<^verbatim>\<open>type\<close>; an
  optional field that an entry does not have is \<open>None\<close>. The content is whatever value the
  handler stored.
\<close>

record ChatMessage =
  id_msg :: string
  type_msg :: msg_type
  content :: jsval
  timestamp :: int
  isAudio :: "bool option"
  hasImage :: "bool option"

section \<open>The component \<^verbatim>\<open>AITextChat\<close>\<close>

text \<open>
  The log \<^verbatim>\<open>messages\<close> is a property that the parent owns; the parent is taken to store what
  \<^verbatim>\<open>onUpdateMessages\<close> passes it. A handler runs to its end before the next one starts (the
  interface is disabled while a request is pending), so its writes are the writes of one step.
  The request payloads are not modelled: an effect \<open>Fetch\<close> records the endpoint only.
\<close>

record chat_state =
  messages :: "ChatMessage list"
  inputMessage :: string
  isRecording :: bool
  isLoading :: bool
  uploadedImage :: "string option"

text \<open>\<^verbatim>\<open>!!uploadedImage\<close>: the image is \<^verbatim>\<open>null\<close> or a string, and an empty string is falsy.\<close>

definition has_image :: "string option \<Rightarrow> bool" where
  "has_image img = (case img of None \<Rightarrow> False | Some url \<Rightarrow> url \<noteq> [])"

text \<open>The environment of one run of a send: the clock readings and the upstream reply.\<close>

record send_env =
  now_user :: int
  date_user :: int
  upstream :: fetch_result
  now_ai :: int
  date_ai :: int

definition generateAIResponse :: "string \<Rightarrow> fetch_result \<Rightarrow> (error + jsval) \<times> effect list" where
  "generateAIResponse userInput r =
     (case readCompletion r of
        Inl e \<Rightarrow> (Inl e, [Fetch openrouter_url, ConsoleError e])
      | Inr v \<Rightarrow> (Inr v, [Fetch openrouter_url]))"

text \<open>The two entries of a send, the source's \<^verbatim>\<open>userMessage\<close> and \<^verbatim>\<open>aiMessage\<close>.\<close>

definition userMessage :: "send_env \<Rightarrow> chat_state \<Rightarrow> ChatMessage" where
  "userMessage env s =
     \<lparr>id_msg = toString (now_user env), type_msg = User,
      content = Some (JStr (if inputMessage s \<noteq> [] then inputMessage s else ''Shared an image'')),
      timestamp = date_user env, isAudio = None,
      hasImage = Some (has_image (uploadedImage s))\<rparr>"

definition aiMessage :: "send_env \<Rightarrow> jsval \<Rightarrow> ChatMessage" where
  "aiMessage env aiResponse =
     \<lparr>id_msg = toString (now_ai env + 1), type_msg = AI, content = aiResponse,
      timestamp = date_ai env, isAudio = None, hasImage = None\<rparr>"

definition handleSendMessage :: "send_env \<Rightarrow> chat_state \<Rightarrow> chat_state \<times> effect list" where
  "handleSendMessage env s =
     (if trim (inputMessage s) = [] \<and> \<not> has_image (uploadedImage s) then (s, [])
      else
        (let updatedMessages = messages s @ [userMessage env s]
         in (case generateAIResponse (inputMessage s) (upstream env) of
               (Inr aiResponse, fx) \<Rightarrow>
                 (s\<lparr>messages := updatedMessages @ [aiMessage env aiResponse],
                    inputMessage := [], uploadedImage := None, isLoading := False\<rparr>,
                  fx @ [Toast ''AI Response Generated''
                          (Text ''Your negotiation assistant has provided guidance.'')
                          Default])
             | (Inl e, fx) \<Rightarrow>
                 (s\<lparr>messages := updatedMessages, inputMessage := [],
                    uploadedImage := None, isLoading := False\<rparr>,
                  fx @ [Toast ''Error''
                          (Text ''Failed to generate AI response. Please try again.'')
                          Destructive]))))"

text \<open>
  The voice button, and the timer it starts when a recording stops.
\<close>

definition handleVoiceRecording :: "chat_state \<Rightarrow> chat_state \<times> effect list" where
  "handleVoiceRecording s =
     (if isRecording s then (s\<lparr>isRecording := False\<rparr>, [SetTimeout 1000])
      else (s\<lparr>isRecording := True\<rparr>,
            [Toast ''Recording Started'' (Text ''Speak your message now...'') Default]))"

definition voiceTimeout :: "chat_state \<Rightarrow> chat_state \<times> effect list" where
  "voiceTimeout s =
     (s\<lparr>inputMessage := ''I'm interested in negotiating the price. What's your best advice?''\<rparr>,
      [Toast ''Voice Recorded'' (Text ''Your voice message has been converted to text.'') Default])"

text \<open>
  A file of the browser, and the environment of one upload: what the two \<^verbatim>\<open>FileReader\<close>s
  give (\<open>None\<close> when the read fails), the clock, and the reply of the vision service.
\<close>

record File =
  size_file :: nat
  type_file :: string

record upload_env =
  read_onload :: "string option"
  read_onloadend :: "string option"
  vision :: fetch_result
  now_analysis :: int
  date_analysis :: int

text \<open>
  The camera emoji is two code units above the model's range; two characters stand for them.
\<close>

definition camera :: string where
  "camera = [CHR 0xD8, CHR 0x3D]"

text \<open>
  \<^verbatim>\<open>data.responses?.[0]?.fullTextAnnotation?.text || "No text found in image."\<close>, and the
  content of the entry built from it.
\<close>

definition extractedText :: "json \<Rightarrow> error + jsval" where
  "extractedText data =
     (case get_prop (Some data) ''responses'' of
        Inl e \<Rightarrow> Inl e
      | Inr responses \<Rightarrow>
          (case opt_index0 responses of
             Inl e \<Rightarrow> Inl e
           | Inr first \<Rightarrow>
               (case opt_prop first ''fullTextAnnotation'' of
                  Inl e \<Rightarrow> Inl e
                | Inr annotation \<Rightarrow>
                    (case opt_prop annotation ''text'' of
                       Inl e \<Rightarrow> Inl e
                     | Inr t \<Rightarrow>
                         Inr (if truthy t then t else Some (JStr ''No text found in image.''))))))"

definition analysisContent :: "jsval \<Rightarrow> error + string" where
  "analysisContent t =
     template
       [Inr (camera @ '' Image Analysis Results:'' @ [CHR 0x0A, CHR 0x0A]),
        to_string t,
        Inr ([CHR 0x0A, CHR 0x0A] @ ''Based on this text from your image, I can help you craft negotiation strategies. What would you like to negotiate?'')]"

definition visionText :: "fetch_result \<Rightarrow> error + string" where
  "visionText r =
     (case r of
        NetworkFailure \<Rightarrow> Inl TransportError
      | Response status body \<Rightarrow>
          (case JSON_parse body of
             None \<Rightarrow> Inl SyntaxError
           | Some data \<Rightarrow>
               (case extractedText data of
                  Inl e \<Rightarrow> Inl e
                | Inr t \<Rightarrow> analysisContent t)))"

definition analysisMessage :: "upload_env \<Rightarrow> string \<Rightarrow> ChatMessage" where
  "analysisMessage env text =
     \<lparr>id_msg = toString (now_analysis env), type_msg = AI, content = Some (JStr text),
      timestamp = date_analysis env, isAudio = None, hasImage = None\<rparr>"

definition analyzeImage :: "File \<Rightarrow> upload_env \<Rightarrow> chat_state \<Rightarrow> chat_state \<times> effect list" where
  "analyzeImage f env s =
     (case read_onloadend env of
        None \<Rightarrow> (s\<lparr>isLoading := True\<rparr>, [ReadAsDataURL, Uncaught TypeError])
      | Some dataUrl \<Rightarrow>
          (case visionText (vision env) of
             Inr text \<Rightarrow>
               (s\<lparr>messages := messages s @ [analysisMessage env text], isLoading := False\<rparr>,
                [ReadAsDataURL, Fetch vision_url,
                 Toast ''Image Analyzed''
                   (Text ''Text extracted from your image successfully!'') Default])
           | Inl e \<Rightarrow>
               (s\<lparr>isLoading := False\<rparr>,
                [ReadAsDataURL, Fetch vision_url,
                 Toast ''Analysis Failed'' (TextWithMessage ''Something went wrong: '' e)
                   Destructive])))"

definition handleImageUpload :: "File option \<Rightarrow> upload_env \<Rightarrow> chat_state \<Rightarrow> chat_state \<times> effect list" where
  "handleImageUpload event env s =
     (case event of
        None \<Rightarrow> (s, [])
      | Some f \<Rightarrow>
          (case read_onload env of
             None \<Rightarrow> (s, [ReadAsDataURL])
           | Some imageDataUrl \<Rightarrow>
               (case analyzeImage f env (s\<lparr>uploadedImage := Some imageDataUrl\<rparr>) of
                  (s', fx) \<Rightarrow> (s', ReadAsDataURL # fx))))"

section \<open>The component \<^verbatim>\<open>ConversationImageAnalyzer\<close>\<close>

text \<open>
  The state of the analyzer has the fields of the chat state (its log, the source's
  \<^verbatim>\<open>chatMessages\<close>, is the field \<open>messages\<close>) and three more. The stored analysis result is
  \<^verbatim>\<open>null\<close> or whatever value \<^verbatim>\<open>analyzeConversation\<close> stored.
\<close>

record analyzer_state = chat_state +
  isAnalyzing :: bool
  analysisResult :: jsval
  dragActive :: bool

abbreviation chatMessages :: "analyzer_state \<Rightarrow> ChatMessage list" where
  "chatMessages \<equiv> messages"

definition and_then :: "error + 'a \<Rightarrow> ('a \<Rightarrow> error + 'b) \<Rightarrow> error + 'b" where
  "and_then r f = (case r of Inl e \<Rightarrow> Inl e | Inr v \<Rightarrow> f v)"

subsection \<open>Upload\<close>

definition handleImageUpload_analyzer ::
  "File \<Rightarrow> string option \<Rightarrow> analyzer_state \<Rightarrow> analyzer_state \<times> effect list" where
  "handleImageUpload_analyzer f read s =
     (if size_file f > 10 * 1024 * 1024 then
        (s, [Toast ''File Too Large'' (Text ''Please upload an image smaller than 10MB.'')
               Destructive])
      else if \<not> startsWith (type_file f) ''image/'' then
        (s, [Toast ''Invalid File Type'' (Text ''Please upload an image file (PNG, JPG, etc.).'')
               Destructive])
      else
        (case read of
           None \<Rightarrow> (s, [ReadAsDataURL])
         | Some url \<Rightarrow>
             (s\<lparr>uploadedImage := Some url\<rparr>,
              [ReadAsDataURL,
               Toast ''Image Uploaded Successfully'' (Text ''Ready to analyze the conversation.'')
                 Default])))"

definition handleFileSelect ::
  "File option \<Rightarrow> string option \<Rightarrow> analyzer_state \<Rightarrow> analyzer_state \<times> effect list" where
  "handleFileSelect event read s =
     (case event of None \<Rightarrow> (s, []) | Some f \<Rightarrow> handleImageUpload_analyzer f read s)"

datatype drag_type = DragEnter | DragOver | DragLeave | DragOther

definition handleDrag :: "drag_type \<Rightarrow> analyzer_state \<Rightarrow> analyzer_state \<times> effect list" where
  "handleDrag e s =
     (if e = DragEnter \<or> e = DragOver then (s\<lparr>dragActive := True\<rparr>, [])
      else if e = DragLeave then (s\<lparr>dragActive := False\<rparr>, [])
      else (s, []))"

definition handleDrop ::
  "File option \<Rightarrow> string option \<Rightarrow> analyzer_state \<Rightarrow> analyzer_state \<times> effect list" where
  "handleDrop event read s =
     (case event of
        None \<Rightarrow> (s\<lparr>dragActive := False\<rparr>, [])
      | Some f \<Rightarrow> handleImageUpload_analyzer f read (s\<lparr>dragActive := False\<rparr>))"

subsection \<open>Analysis\<close>

text \<open>
  The match of \<^verbatim>\<open>/\{[\s\S]*\}/\<close>: the search starts at the first \<^verbatim>\<open>{\<close>, the star is greedy and
  its class takes every code unit, so the match runs to the last \<^verbatim>\<open>}\<close> of the text; there is
  none when no \<^verbatim>\<open>}\<close> follows the first \<^verbatim>\<open>{\<close>.
\<close>

definition jsonMatch :: "string \<Rightarrow> string option" where
  "jsonMatch text =
     (let from_open = dropWhile (\<lambda>c. c \<noteq> CHR ''{'') text
      in if CHR ''}'' \<in> set from_open
         then Some (rev (dropWhile (\<lambda>c. c \<noteq> CHR ''}'') (rev from_open)))
         else None)"

text \<open>The object that the \<^verbatim>\<open>catch\<close> block builds.\<close>

definition fallbackResult :: "string \<Rightarrow> string \<Rightarrow> json" where
  "fallbackResult selectedCategory suggested =
     JObj
       [(''sentiment'', JStr ''neutral''),
        (''keyPoints'',
           JArr [JStr ''AI analysis completed successfully'',
                 JStr ''Conversation details extracted from image'',
                 JStr ''Ready to provide negotiation guidance'',
                 JStr (''Analysis tailored for '' @ selectedCategory @ '' transactions'')]),
        (''suggestedResponse'', JStr suggested),
        (''negotiationTips'',
           JArr [JStr ''Review the AI analysis carefully'',
                 JStr ''Consider the specific platform dynamics'',
                 JStr ''Focus on building rapport with the seller'',
                 JStr ''Present your offer with clear justification'']),
        (''priceAnalysis'', JObj [(''priceFlexibility'', JStr ''medium'')]),
        (''urgencyLevel'', JStr ''medium''),
        (''sellerMotivation'', JStr ''Analysis based on conversation content'')]"

text \<open>
  The \<^verbatim>\<open>try\<close> block: \<^verbatim>\<open>analysisText.match\<close> is callable on a string only; the match and
  \<^verbatim>\<open>JSON.parse\<close> follow.
\<close>

definition tryParse :: "jsval \<Rightarrow> error + json" where
  "tryParse analysisText =
     (case analysisText of
        Some (JStr text) \<Rightarrow>
          (case jsonMatch text of
             None \<Rightarrow> Inl NoJSONFound
           | Some m \<Rightarrow> (case JSON_parse m of None \<Rightarrow> Inl SyntaxError | Some v \<Rightarrow> Inr v))
      | _ \<Rightarrow> Inl TypeError)"

text \<open>
  \<^verbatim>\<open>analysisText.slice(0, 300) + '...'\<close> in the \<^verbatim>\<open>catch\<close> block: a string and an array have a
  \<^verbatim>\<open>slice\<close>, no other value has.
\<close>

definition truncated :: "jsval \<Rightarrow> error + string" where
  "truncated analysisText =
     (case analysisText of
        Some (JStr text) \<Rightarrow> Inr (take 300 text @ ''...'')
      | Some (JArr xs) \<Rightarrow> and_then (js_to_string (JArr (take 300 xs))) (\<lambda>t. Inr (t @ ''...''))
      | _ \<Rightarrow> Inl TypeError)"

text \<open>The extraction: lines 632 to 665, the \<^verbatim>\<open>try\<close> block and its \<^verbatim>\<open>catch\<close>.\<close>

definition parseAnalysis :: "string \<Rightarrow> jsval \<Rightarrow> error + json" where
  "parseAnalysis selectedCategory analysisText =
     (case tryParse analysisText of
        Inr result \<Rightarrow> Inr result
      | Inl parseError \<Rightarrow>
          and_then (truncated analysisText)
            (\<lambda>suggested. Inr (fallbackResult selectedCategory suggested)))"

text \<open>The content of the entry that opens the chat.\<close>

definition initialContent :: "string \<Rightarrow> json \<Rightarrow> error + string" where
  "initialContent selectedCategory result =
     template
       [Inr ''I've analyzed your conversation screenshot using Gemini 2.5. Based on the '',
        Inr selectedCategory,
        Inr '' negotiation, I can see that '',
        and_then (get_prop (Some result) ''sellerMotivation'') call_toLowerCase,
        Inr ''. The seller's sentiment appears '',
        and_then (get_prop (Some result) ''sentiment'') to_string,
        Inr ''. Feel free to ask me any questions about the analysis or negotiation strategy!'']"

record analyze_env =
  reply :: fetch_result
  now_initial :: int
  date_initial :: int

text \<open>The title of the last toast ends with an emoji; two characters stand for it.\<close>

definition party :: string where
  "party = [CHR 0xD8, CHR 0x3C]"

definition initialMessage :: "analyze_env \<Rightarrow> string \<Rightarrow> ChatMessage" where
  "initialMessage env text =
     \<lparr>id_msg = toString (now_initial env), type_msg = AI, content = Some (JStr text),
      timestamp = date_initial env, isAudio = None, hasImage = None\<rparr>"

definition analysisFailed :: "error \<Rightarrow> effect list" where
  "analysisFailed e =
     [Fetch openrouter_url, ConsoleError e,
      Toast ''Analysis Failed'' (Text ''Unable to analyze the conversation. Please try again.'')
        Destructive]"

definition analyzeConversation ::
  "string \<Rightarrow> analyze_env \<Rightarrow> analyzer_state \<Rightarrow> analyzer_state \<times> effect list" where
  "analyzeConversation selectedCategory env s =
     (if \<not> has_image (uploadedImage s) then
        (s, [Toast ''No Image Uploaded'' (Text ''Please upload a conversation screenshot first.'')
               Destructive])
      else if selectedCategory = [] then
        (s, [Toast ''Category Required''
               (Text ''Please select a category first for specialized analysis.'') Destructive])
      else
        (case readCompletion (reply env) of
           Inl e \<Rightarrow> (s\<lparr>isAnalyzing := False\<rparr>, analysisFailed e)
         | Inr analysisText \<Rightarrow>
             (case parseAnalysis selectedCategory analysisText of
                Inl e \<Rightarrow> (s\<lparr>isAnalyzing := False\<rparr>, analysisFailed e)
              | Inr result \<Rightarrow>
                  (case initialContent selectedCategory result of
                     Inl e \<Rightarrow>
                       (s\<lparr>isAnalyzing := False, analysisResult := Some result\<rparr>,
                        analysisFailed e)
                   | Inr text \<Rightarrow>
                       (s\<lparr>messages := [initialMessage env text], isAnalyzing := False,
                          analysisResult := Some result\<rparr>,
                        [Fetch openrouter_url,
                         Toast (''Analysis Complete! '' @ party)
                           (Text ''Your conversation has been analyzed with Gemini 2.5.'')
                           Default])))))"

subsection \<open>The follow-up chat\<close>

definition guidance :: string where
  "guidance = ''Please upload and analyze a conversation first so I can provide specific guidance.''"

definition trouble :: string where
  "trouble = ''I'm having trouble connecting to my analysis system. Please try again.''"

text \<open>
  The system prompt. It is evaluated inside the \<^verbatim>\<open>try\<close> block, before the \<^verbatim>\<open>fetch\<close>, and a
  stored result without the array fields makes it throw.
\<close>

definition or_else :: "jsval \<Rightarrow> string \<Rightarrow> error + string" where
  "or_else v d = (if truthy v then to_string v else Inr d)"

definition contextPrompt :: "string \<Rightarrow> jsval \<Rightarrow> error + string" where
  "contextPrompt selectedCategory analysis =
     template
       [Inr ''You are a professional negotiation assistant specializing in '',
        Inr selectedCategory,
        Inr ('' transactions. '' @ [CHR 0x0A, CHR 0x0A] @
             ''Based on the Gemini 2.5 Pro image analysis results:'' @ [CHR 0x0A] @
             ''- Sentiment: ''),
        and_then (get_prop analysis ''sentiment'') to_string,
        Inr ([CHR 0x0A] @ ''- Key Points: ''),
        and_then (get_prop analysis ''keyPoints'') (\<lambda>v. call_join v '', ''),
        Inr ([CHR 0x0A] @ ''- Seller Motivation: ''),
        and_then (get_prop analysis ''sellerMotivation'') to_string,
        Inr ([CHR 0x0A] @ ''- Urgency Level: ''),
        and_then (get_prop analysis ''urgencyLevel'') to_string,
        Inr ([CHR 0x0A] @ ''- Price Flexibility: ''),
        and_then (get_prop analysis ''priceAnalysis'')
          (\<lambda>pa. and_then (opt_prop pa ''priceFlexibility'') (\<lambda>v. or_else v ''unknown'')),
        Inr ([CHR 0x0A] @ ''- Mentioned Price: ''),
        and_then (get_prop analysis ''priceAnalysis'')
          (\<lambda>pa. and_then (opt_prop pa ''mentionedPrice'') (\<lambda>v. or_else v ''none mentioned'')),
        Inr ([CHR 0x0A] @ ''- Suggested Response: ''),
        and_then (get_prop analysis ''suggestedResponse'') to_string,
        Inr ([CHR 0x0A] @ ''- Negotiation Tips: ''),
        and_then (get_prop analysis ''negotiationTips'') (\<lambda>v. call_join v '', ''),
        Inr ([CHR 0x0A, CHR 0x0A] @
             ''Use this analysis to provide specific, actionable negotiation advice.'')]"

definition generateContextualResponse ::
  "string \<Rightarrow> string \<Rightarrow> jsval \<Rightarrow> fetch_result \<Rightarrow> (error + jsval) \<times> effect list" where
  "generateContextualResponse selectedCategory userInput analysis r =
     (if \<not> truthy analysis then (Inr (Some (JStr guidance)), [])
      else
        (case contextPrompt selectedCategory analysis of
           Inl e \<Rightarrow> (Inr (Some (JStr trouble)), [ConsoleError e])
         | Inr prompt \<Rightarrow>
             (case readCompletion r of
                Inl e \<Rightarrow> (Inr (Some (JStr trouble)), [Fetch openrouter_url, ConsoleError e])
              | Inr v \<Rightarrow> (Inr v, [Fetch openrouter_url]))))"

definition userMessage_analyzer :: "send_env \<Rightarrow> analyzer_state \<Rightarrow> ChatMessage" where
  "userMessage_analyzer env s =
     \<lparr>id_msg = toString (now_user env), type_msg = User,
      content = Some (JStr (inputMessage s)), timestamp = date_user env,
      isAudio = Some (isRecording s), hasImage = None\<rparr>"

definition handleSendMessage_analyzer ::
  "string \<Rightarrow> send_env \<Rightarrow> analyzer_state \<Rightarrow> analyzer_state \<times> effect list" where
  "handleSendMessage_analyzer selectedCategory env s =
     (if trim (inputMessage s) = [] then (s, [])
      else
        (let updatedMessages = chatMessages s @ [userMessage_analyzer env s]
         in (case generateContextualResponse selectedCategory (inputMessage s)
                    (analysisResult s) (upstream env) of
               (Inr aiResponse, fx) \<Rightarrow>
                 (s\<lparr>messages := updatedMessages @ [aiMessage env aiResponse],
                    inputMessage := [], isLoading := False\<rparr>,
                  fx)
             | (Inl e, fx) \<Rightarrow>
                 (s\<lparr>messages := updatedMessages, inputMessage := [], isLoading := False\<rparr>,
                  fx @ [Toast ''Error''
                          (Text ''Failed to generate AI response. Please try again.'')
                          Destructive]))))"

definition handleVoiceRecording_analyzer :: "analyzer_state \<Rightarrow> analyzer_state \<times> effect list" where
  "handleVoiceRecording_analyzer s =
     (if isRecording s then (s\<lparr>isRecording := False\<rparr>, [SetTimeout 1000])
      else (s\<lparr>isRecording := True\<rparr>,
            [Toast ''Recording Started'' (Text ''Speak your message now...'') Default]))"

definition voiceTimeout_analyzer :: "analyzer_state \<Rightarrow> analyzer_state \<times> effect list" where
  "voiceTimeout_analyzer s =
     (s\<lparr>inputMessage := ''What's the best strategy based on this analysis?''\<rparr>,
      [Toast ''Voice Recorded'' (Text ''Your voice message has been converted to text.'') Default])"

section \<open>Sessions\<close>

text \<open>
  The events of a session: what the user does, with the environment's inputs of the handler
  that the event runs. Typing is the \<^verbatim>\<open>onChange\<close> of the text area.
\<close>

datatype chat_event =
    Type string
  | Send send_env
  | Voice
  | VoiceTimer
  | Upload "File option" upload_env
  | RemoveImage

fun chat_step :: "chat_event \<Rightarrow> chat_state \<Rightarrow> chat_state \<times> effect list" where
  "chat_step (Type t) s = (s\<lparr>inputMessage := t\<rparr>, [])"
| "chat_step (Send env) s = handleSendMessage env s"
| "chat_step Voice s = handleVoiceRecording s"
| "chat_step VoiceTimer s = voiceTimeout s"
| "chat_step (Upload event env) s = handleImageUpload event env s"
| "chat_step RemoveImage s = (s\<lparr>uploadedImage := None\<rparr>, [])"

datatype analyzer_event =
    TypeA string
  | SendA send_env
  | VoiceA
  | VoiceTimerA
  | FileSelect "File option" "string option"
  | Drag drag_type
  | Drop "File option" "string option"
  | Analyze analyze_env

fun analyzer_step :: "string \<Rightarrow> analyzer_event \<Rightarrow> analyzer_state \<Rightarrow> analyzer_state \<times> effect list" where
  "analyzer_step cat (TypeA t) s = (s\<lparr>inputMessage := t\<rparr>, [])"
| "analyzer_step cat (SendA env) s = handleSendMessage_analyzer cat env s"
| "analyzer_step cat VoiceA s = handleVoiceRecording_analyzer s"
| "analyzer_step cat VoiceTimerA s = voiceTimeout_analyzer s"
| "analyzer_step cat (FileSelect event read) s = handleFileSelect event read s"
| "analyzer_step cat (Drag e) s = handleDrag e s"
| "analyzer_step cat (Drop event read) s = handleDrop event read s"
| "analyzer_step cat (Analyze env) s = analyzeConversation cat env s"

fun chat_run :: "chat_event list \<Rightarrow> chat_state \<Rightarrow> chat_state" where
  "chat_run [] s = s"
| "chat_run (e # es) s = chat_run es (fst (chat_step e s))"

fun analyzer_run :: "string \<Rightarrow> analyzer_event list \<Rightarrow> analyzer_state \<Rightarrow> analyzer_state" where
  "analyzer_run cat [] s = s"
| "analyzer_run cat (e # es) s = analyzer_run cat es (fst (analyzer_step cat e s))"

definition chat_initial :: chat_state where
  "chat_initial =
     \<lparr>messages = [], inputMessage = [], isRecording = False, isLoading = False,
      uploadedImage = None\<rparr>"

definition analyzer_initial :: analyzer_state where
  "analyzer_initial =
     \<lparr>messages = [], inputMessage = [], isRecording = False, isLoading = False,
      uploadedImage = None, isAnalyzing = False, analysisResult = Some JNull,
      dragActive = False\<rparr>"

section \<open>Vocabulary of the properties\<close>

definition is_error_toast :: "effect \<Rightarrow> bool" where
  "is_error_toast e = (case e of Toast t d v \<Rightarrow> v = Destructive | _ \<Rightarrow> False)"

text \<open>Example inputs: a send whose upstream call is rejected, and a blank text.\<close>

definition send_env_1 :: send_env where
  "send_env_1 =
     \<lparr>now_user = 1000, date_user = 1000, upstream = NetworkFailure, now_ai = 1000,
      date_ai = 1000\<rparr>"

definition blank_text :: string where
  "blank_text = [CHR '' '', CHR 0x09, CHR 0x0A]"

text \<open>An analyzer state after an analysis that fell back, with a text typed.\<close>

definition analyzed_state :: analyzer_state where
  "analyzed_state =
     analyzer_initial\<lparr>inputMessage := ''hi'', uploadedImage := Some ''data:image/png;base64,AA'',
       analysisResult := Some (fallbackResult ''cars'' ''ok...'')\<rparr>"

text \<open>Reading a field, or a field of a field, of an extraction's result.\<close>

fun path :: "string list \<Rightarrow> jsval \<Rightarrow> error + jsval" where
  "path [] v = Inr v"
| "path (n # ns) v = and_then (get_prop v n) (path ns)"

definition field :: "string list \<Rightarrow> error + json \<Rightarrow> error + jsval" where
  "field ns r = (case r of Inl e \<Rightarrow> Inl e | Inr v \<Rightarrow> path ns (Some v))"

text \<open>
  The shape of the interface \<^verbatim>\<open>AnalysisResult\<close> (lines 454 to 465), as a test on a value.
\<close>

definition one_of :: "string list \<Rightarrow> jsval \<Rightarrow> bool" where
  "one_of xs v = (case v of Some (JStr s) \<Rightarrow> s \<in> set xs | _ \<Rightarrow> False)"

definition is_string :: "jsval \<Rightarrow> bool" where
  "is_string v = (case v of Some (JStr s) \<Rightarrow> True | _ \<Rightarrow> False)"

definition is_string_array :: "jsval \<Rightarrow> bool" where
  "is_string_array v =
     (case v of Some (JArr xs) \<Rightarrow> list_all (\<lambda>x. is_string (Some x)) xs | _ \<Rightarrow> False)"

definition is_priceAnalysis :: "jsval \<Rightarrow> bool" where
  "is_priceAnalysis v =
     (case v of
        None \<Rightarrow> True
      | Some (JObj kvs) \<Rightarrow>
          (map_of (rev kvs) ''mentionedPrice'' = None \<or> is_string (map_of (rev kvs) ''mentionedPrice''))
          \<and> one_of [''high'', ''medium'', ''low''] (map_of (rev kvs) ''priceFlexibility'')
      | _ \<Rightarrow> False)"

definition is_AnalysisResult :: "json \<Rightarrow> bool" where
  "is_AnalysisResult v =
     (case v of
        JObj kvs \<Rightarrow>
          one_of [''positive'', ''neutral'', ''negative''] (map_of (rev kvs) ''sentiment'')
          \<and> is_string_array (map_of (rev kvs) ''keyPoints'')
          \<and> is_string (map_of (rev kvs) ''suggestedResponse'')
          \<and> is_string_array (map_of (rev kvs) ''negotiationTips'')
          \<and> is_priceAnalysis (map_of (rev kvs) ''priceAnalysis'')
          \<and> one_of [''high'', ''medium'', ''low''] (map_of (rev kvs) ''urgencyLevel'')
          \<and> is_string (map_of (rev kvs) ''sellerMotivation'')
      | _ \<Rightarrow> False)"

text \<open>Example replies: a full result, and an object with one field outside its domain.\<close>

definition sample_json :: string where
  \<open>sample_json = ''{"sentiment":"positive","keyPoints":["a"],"suggestedResponse":"ok","negotiationTips":["b"],"priceAnalysis":{"priceFlexibility":"high"},"urgencyLevel":"low","sellerMotivation":"Moving"}''\<close>

definition sample_result :: json where
  "sample_result =
     JObj [(''sentiment'', JStr ''positive''), (''keyPoints'', JArr [JStr ''a'']),
           (''suggestedResponse'', JStr ''ok''), (''negotiationTips'', JArr [JStr ''b'']),
           (''priceAnalysis'', JObj [(''priceFlexibility'', JStr ''high'')]),
           (''urgencyLevel'', JStr ''low''), (''sellerMotivation'', JStr ''Moving'')]"

definition partial_json :: string where
  \<open>partial_json = ''{"sentiment":"angry"}''\<close>

definition partial_result :: json where
  "partial_result = JObj [(''sentiment'', JStr ''angry'')]"

definition partial_body :: string where
  \<open>partial_body =
     ''{"choices":[{"message":{"content":"{'' @ [CHR 0x5C] @ ''"sentiment'' @ [CHR 0x5C] @
     ''":'' @ [CHR 0x5C] @ ''"angry'' @ [CHR 0x5C] @ ''"}"}}]}''\<close>

definition uploaded_state :: analyzer_state where
  "uploaded_state = analyzer_initial\<lparr>uploadedImage := Some ''data:image/png;base64,AA''\<rparr>"

definition analyze_env_partial :: analyze_env where
  "analyze_env_partial = \<lparr>reply = Response 200 partial_body, now_initial = 5000, date_initial = 5000\<rparr>"

text \<open>Example inputs: a text file of 15 MB, and an upload that reads it.\<close>

definition big_text_file :: File where
  "big_text_file = \<lparr>size_file = 15 * 1024 * 1024, type_file = ''text/plain''\<rparr>"

definition upload_env_1 :: upload_env where
  \<open>upload_env_1 =
     \<lparr>read_onload = Some ''data:text/plain;base64,AA'',
      read_onloadend = Some ''data:text/plain;base64,AA'',
      vision = Response 200 ''{"responses":[{}]}'', now_analysis = 2000, date_analysis = 2000\<rparr>\<close>


fun chat_sends :: "(string \<times> send_env) list \<Rightarrow> chat_event list" where
  "chat_sends [] = []"
| "chat_sends ((t, env) # xs) = Type t # Send env # chat_sends xs"


fun analyzer_sends :: "(string \<times> send_env) list \<Rightarrow> analyzer_event list" where
  "analyzer_sends [] = []"
| "analyzer_sends ((t, env) # xs) = TypeA t # SendA env # analyzer_sends xs"




text \<open>Example inputs: two sends that the upstream service answers, and an analysis.\<close>

definition ok_body :: string where
  \<open>ok_body = ''{"choices":[{"message":{"content":"Offer 80."}}]}''\<close>

definition send_env_ok1 :: send_env where
  "send_env_ok1 =
     \<lparr>now_user = 1000, date_user = 1000, upstream = Response 200 ok_body, now_ai = 1500,
      date_ai = 1500\<rparr>"

definition send_env_ok2 :: send_env where
  "send_env_ok2 =
     \<lparr>now_user = 9000, date_user = 9000, upstream = Response 200 ok_body, now_ai = 9500,
      date_ai = 9500\<rparr>"

definition two_sends :: "(string \<times> send_env) list" where
  "two_sends = [(''hi'', send_env_ok1), (''more'', send_env_ok2)]"



text \<open>
  A session's clock is spaced for the ids when every reading taken for an id is at least the
  bound that the ids given so far stay below, and the reading for an assistant entry is not
  earlier than the one for its user entry. An event gives the bound after it, or \<open>None\<close> when
  its readings are not spaced.
\<close>

definition chat_clock :: "int \<Rightarrow> chat_event \<Rightarrow> int option" where
  "chat_clock b e =
     (case e of
        Send env \<Rightarrow>
          if b \<le> now_user env \<and> now_user env \<le> now_ai env then Some (now_ai env + 2) else None
      | Upload event env \<Rightarrow>
          if b \<le> now_analysis env then Some (now_analysis env + 1) else None
      | _ \<Rightarrow> Some b)"

fun chat_spaced :: "int \<Rightarrow> chat_event list \<Rightarrow> bool" where
  "chat_spaced b [] = True"
| "chat_spaced b (e # es) =
     (case chat_clock b e of None \<Rightarrow> False | Some b' \<Rightarrow> chat_spaced b' es)"

definition analyzer_clock :: "int \<Rightarrow> analyzer_event \<Rightarrow> int option" where
  "analyzer_clock b e =
     (case e of
        SendA env \<Rightarrow>
          if b \<le> now_user env \<and> now_user env \<le> now_ai env then Some (now_ai env + 2) else None
      | Analyze env \<Rightarrow>
          if b \<le> now_initial env then Some (now_initial env + 1) else None
      | _ \<Rightarrow> Some b)"

fun analyzer_spaced :: "int \<Rightarrow> analyzer_event list \<Rightarrow> bool" where
  "analyzer_spaced b [] = True"
| "analyzer_spaced b (e # es) =
     (case analyzer_clock b e of None \<Rightarrow> False | Some b' \<Rightarrow> analyzer_spaced b' es)"

text \<open>The ids of a log are the renderings of increasing numbers below a bound.\<close>

definition ids_lt :: "int \<Rightarrow> ChatMessage list \<Rightarrow> bool" where
  "ids_lt b log =
     (\<exists>ns. map id_msg log = map toString ns \<and> sorted_wrt (<) ns \<and> (\<forall>n\<in>set ns. n < b))"

text \<open>Example input: a send one millisecond after the send \<open>send_env_1\<close>.\<close>

definition send_env_2 :: send_env where
  "send_env_2 =
     \<lparr>now_user = 1001, date_user = 1001, upstream = NetworkFailure, now_ai = 1001,
      date_ai = 1001\<rparr>"

section \<open>Properties\<close>

subsection \<open>A send of nothing\<close>

lemma chat_send_noop:
  "trim (inputMessage s) = [] \<Longrightarrow> \<not> has_image (uploadedImage s) \<Longrightarrow>
   handleSendMessage env s = (s, [])"
  by (simp add: handleSendMessage_def)

lemma analyzer_send_noop:
  "trim (inputMessage a) = [] \<Longrightarrow> handleSendMessage_analyzer cat env a = (a, [])"
  by (simp add: handleSendMessage_analyzer_def)

lemma trim_blank_text: "trim blank_text = []"
  by (simp add: blank_text_def trim_def js_whitespace_def code_def)

text \<open>
  C9. A send with empty or white-space text and no attachment is a no-op in both components:
  the handler returns the state it was given, so the log is unchanged and no entry is
  appended, and it emits no effect, so no network call occurs. The analyzer's send has no
  attachment to test.
\<close>

theorem C9_empty_send_is_noop:
  assumes "trim (inputMessage s) = []" and "\<not> has_image (uploadedImage s)"
    and "trim (inputMessage a) = []"
  shows "handleSendMessage env s = (s, []) \<and> handleSendMessage_analyzer cat env' a = (a, [])"
  using assms by (simp add: chat_send_noop analyzer_send_noop)

theorem C9_empty_send_is_noop_witness:
  "trim (inputMessage (chat_initial\<lparr>inputMessage := blank_text\<rparr>)) = []
   \<and> \<not> has_image (uploadedImage (chat_initial\<lparr>inputMessage := blank_text\<rparr>))
   \<and> trim (inputMessage analyzer_initial) = []
   \<and> handleSendMessage send_env_1 (chat_initial\<lparr>inputMessage := blank_text\<rparr>)
       = (chat_initial\<lparr>inputMessage := blank_text\<rparr>, [])
   \<and> handleSendMessage_analyzer ''cars'' send_env_1 analyzer_initial = (analyzer_initial, [])"
proof -
  have h1: "trim (inputMessage (chat_initial\<lparr>inputMessage := blank_text\<rparr>)) = []"
    by (simp add: trim_blank_text)
  have h2: "\<not> has_image (uploadedImage (chat_initial\<lparr>inputMessage := blank_text\<rparr>))"
    by (simp add: chat_initial_def has_image_def)
  have h3: "trim (inputMessage analyzer_initial) = []"
    by (simp add: analyzer_initial_def trim_def)
  from C9_empty_send_is_noop [OF h1 h2 h3, of send_env_1 "''cars''" send_env_1] h1 h2 h3
  show ?thesis by blast
qed

subsection \<open>What a send appends\<close>

lemma chat_send_failure:
  assumes "trim (inputMessage s) \<noteq> [] \<or> has_image (uploadedImage s)"
    and "fst (generateAIResponse (inputMessage s) (upstream env)) = Inl e"
  shows "handleSendMessage env s =
           (s\<lparr>messages := messages s @ [userMessage env s], inputMessage := [],
              uploadedImage := None, isLoading := False\<rparr>,
            [Fetch openrouter_url, ConsoleError e,
             Toast ''Error'' (Text ''Failed to generate AI response. Please try again.'')
               Destructive])"
  using assms
  by (auto simp: handleSendMessage_def generateAIResponse_def split: sum.splits)

lemma chat_send_success:
  assumes "trim (inputMessage s) \<noteq> [] \<or> has_image (uploadedImage s)"
    and "fst (generateAIResponse (inputMessage s) (upstream env)) = Inr v"
  shows "handleSendMessage env s =
           (s\<lparr>messages := messages s @ [userMessage env s, aiMessage env v], inputMessage := [],
              uploadedImage := None, isLoading := False\<rparr>,
            [Fetch openrouter_url,
             Toast ''AI Response Generated''
               (Text ''Your negotiation assistant has provided guidance.'') Default])"
  using assms
  by (auto simp: handleSendMessage_def generateAIResponse_def split: sum.splits)

lemma analyzer_send_appends:
  assumes "trim (inputMessage s) \<noteq> []"
    and "generateContextualResponse cat (inputMessage s) (analysisResult s) (upstream env)
           = (Inr v, fx)"
  shows "handleSendMessage_analyzer cat env s =
           (s\<lparr>messages := chatMessages s @ [userMessage_analyzer env s, aiMessage env v],
              inputMessage := [], isLoading := False\<rparr>, fx)"
  using assms by (simp add: handleSendMessage_analyzer_def)

text \<open>The analyzer's generator returns in every case: the \<^verbatim>\<open>catch\<close> of its caller is dead.\<close>

lemma contextual_never_throws:
  "\<exists>v fx. generateContextualResponse cat userInput analysis r = (Inr v, fx)"
  by (simp add: generateContextualResponse_def split: sum.splits)

lemma contextual_without_analysis:
  "\<not> truthy analysis \<Longrightarrow>
   generateContextualResponse cat userInput analysis r = (Inr (Some (JStr guidance)), [])"
  by (simp add: generateContextualResponse_def)

lemma contextual_failure:
  assumes "truthy analysis"
    and "contextPrompt cat analysis = Inl e \<or> readCompletion r = Inl e"
  shows "\<exists>fx. generateContextualResponse cat userInput analysis r
                 = (Inr (Some (JStr trouble)), fx)
              \<and> filter is_error_toast fx = []"
  using assms
  by (auto simp: generateContextualResponse_def is_error_toast_def split: sum.splits)

lemma trim_hi: "trim ''hi'' = ''hi''"
  by (simp add: trim_def js_whitespace_def code_def)

lemma send_env_1_fails: "readCompletion (upstream send_env_1) = Inl TransportError"
  by (simp add: send_env_1_def readCompletion_def)

text \<open>
  C1, as the claim states it, fails in the image analyzer: with an analysis stored and the
  upstream call rejected, the follow-up send appends a user entry and an assistant entry, and
  raises no error notification.
\<close>

theorem C1_analyzer_counterexample:
  "readCompletion (upstream send_env_1) = Inl TransportError
   \<and> map type_msg
        (chatMessages (fst (handleSendMessage_analyzer ''cars'' send_env_1 analyzed_state)))
       = [User, AI]
   \<and> filter is_error_toast (snd (handleSendMessage_analyzer ''cars'' send_env_1 analyzed_state))
       = []"
  by (simp add: send_env_1_fails handleSendMessage_analyzer_def analyzed_state_def
      analyzer_initial_def trim_hi generateContextualResponse_def fallbackResult_def
      contextPrompt_def and_then_def to_string_def call_join_def opt_prop_def or_else_def
      userMessage_analyzer_def aiMessage_def is_error_toast_def)

text \<open>
  C1, amended. In the text chat, a send whose generation call fails (a rejected \<^verbatim>\<open>fetch\<close>, a
  status outside 200 to 299, a body that is not JSON or has no \<^verbatim>\<open>choices[0].message\<close>)
  appends exactly the user entry and raises exactly one error notification. In the image
  analyzer's follow-up chat, a send whose generation fails appends the user entry and then an
  assistant entry with the fixed text \<open>trouble\<close>, and raises no error notification.
\<close>

theorem C1_failed_generation:
  assumes "trim (inputMessage s) \<noteq> [] \<or> has_image (uploadedImage s)"
    and "fst (generateAIResponse (inputMessage s) (upstream env)) = Inl e"
    and "trim (inputMessage a) \<noteq> []"
    and "truthy (analysisResult a)"
    and "contextPrompt cat (analysisResult a) = Inl e' \<or> readCompletion (upstream env') = Inl e'"
  shows "messages (fst (handleSendMessage env s)) = messages s @ [userMessage env s]
         \<and> type_msg (userMessage env s) = User
         \<and> filter is_error_toast (snd (handleSendMessage env s))
             = [Toast ''Error'' (Text ''Failed to generate AI response. Please try again.'')
                  Destructive]
         \<and> chatMessages (fst (handleSendMessage_analyzer cat env' a))
             = chatMessages a @ [userMessage_analyzer env' a, aiMessage env' (Some (JStr trouble))]
         \<and> type_msg (userMessage_analyzer env' a) = User
         \<and> type_msg (aiMessage env' (Some (JStr trouble))) = AI
         \<and> filter is_error_toast (snd (handleSendMessage_analyzer cat env' a)) = []"
proof -
  have chat: "handleSendMessage env s =
           (s\<lparr>messages := messages s @ [userMessage env s], inputMessage := [],
              uploadedImage := None, isLoading := False\<rparr>,
            [Fetch openrouter_url, ConsoleError e,
             Toast ''Error'' (Text ''Failed to generate AI response. Please try again.'')
               Destructive])"
    using assms(1,2) by (rule chat_send_failure)
  obtain fx where
    gen: "generateContextualResponse cat (inputMessage a) (analysisResult a) (upstream env')
            = (Inr (Some (JStr trouble)), fx)"
    and quiet: "filter is_error_toast fx = []"
    using contextual_failure [OF assms(4,5)] by blast
  have an: "handleSendMessage_analyzer cat env' a =
           (a\<lparr>messages := chatMessages a @
                 [userMessage_analyzer env' a, aiMessage env' (Some (JStr trouble))],
              inputMessage := [], isLoading := False\<rparr>, fx)"
    using assms(3) gen by (rule analyzer_send_appends)
  show ?thesis
    by (simp add: chat an quiet is_error_toast_def userMessage_def userMessage_analyzer_def
        aiMessage_def)
qed

theorem C1_failed_generation_witness:
  "fst (generateAIResponse ''hi'' NetworkFailure) = Inl TransportError
   \<and> map type_msg
        (messages (fst (handleSendMessage send_env_1 (chat_initial\<lparr>inputMessage := ''hi''\<rparr>))))
       = [User]
   \<and> length (filter is_error_toast
        (snd (handleSendMessage send_env_1 (chat_initial\<lparr>inputMessage := ''hi''\<rparr>)))) = 1
   \<and> map content
        (chatMessages (fst (handleSendMessage_analyzer ''cars'' send_env_1 analyzed_state)))
       = [Some (JStr ''hi''), Some (JStr trouble)]
   \<and> filter is_error_toast (snd (handleSendMessage_analyzer ''cars'' send_env_1 analyzed_state))
       = []"
proof -
  let ?s = "chat_initial\<lparr>inputMessage := ''hi''\<rparr>"
  have h1: "trim (inputMessage ?s) \<noteq> [] \<or> has_image (uploadedImage ?s)"
    by (simp add: trim_hi)
  have h2: "fst (generateAIResponse (inputMessage ?s) (upstream send_env_1)) = Inl TransportError"
    by (simp add: generateAIResponse_def send_env_1_fails)
  have h3: "trim (inputMessage analyzed_state) \<noteq> []"
    by (simp add: analyzed_state_def trim_hi)
  have h4: "truthy (analysisResult analyzed_state)"
    by (simp add: analyzed_state_def fallbackResult_def)
  have h5: "contextPrompt ''cars'' (analysisResult analyzed_state) = Inl TransportError
            \<or> readCompletion (upstream send_env_1) = Inl TransportError"
    by (simp add: send_env_1_fails)
  from C1_failed_generation [OF h1 h2 h3 h4 h5] h2
  show ?thesis
    by (simp add: chat_initial_def analyzed_state_def analyzer_initial_def userMessage_def
        userMessage_analyzer_def aiMessage_def send_env_1_def)
qed

subsection \<open>A send before any analysis\<close>

text \<open>
  C10. In the analyzer's follow-up chat, a send (of a text that is not blank) while the
  stored analysis is \<^verbatim>\<open>null\<close> makes no network call: the generator returns the fixed text
  \<open>guidance\<close> with no effect, and the handler appends the user entry and then the assistant
  entry with that text, with no effect either.
\<close>

theorem C10_send_without_analysis:
  assumes "\<not> truthy (analysisResult s)" and "trim (inputMessage s) \<noteq> []"
  shows "generateContextualResponse cat (inputMessage s) (analysisResult s) r
           = (Inr (Some (JStr guidance)), [])
         \<and> handleSendMessage_analyzer cat env s =
             (s\<lparr>messages := chatMessages s @
                   [userMessage_analyzer env s, aiMessage env (Some (JStr guidance))],
                inputMessage := [], isLoading := False\<rparr>, [])"
  using assms
  by (simp add: contextual_without_analysis analyzer_send_appends)

theorem C10_send_without_analysis_witness:
  "analysisResult (analyzer_initial\<lparr>inputMessage := ''hi''\<rparr>) = Some JNull
   \<and> generateContextualResponse ''cars'' ''hi'' (Some JNull) NetworkFailure
       = (Inr (Some (JStr guidance)), [])
   \<and> map content (chatMessages (fst (handleSendMessage_analyzer ''cars'' send_env_1
         (analyzer_initial\<lparr>inputMessage := ''hi''\<rparr>))))
       = [Some (JStr ''hi''), Some (JStr guidance)]
   \<and> snd (handleSendMessage_analyzer ''cars'' send_env_1
         (analyzer_initial\<lparr>inputMessage := ''hi''\<rparr>)) = []"
proof -
  let ?s = "analyzer_initial\<lparr>inputMessage := ''hi''\<rparr>"
  have h1: "\<not> truthy (analysisResult ?s)" by (simp add: analyzer_initial_def)
  have h2: "trim (inputMessage ?s) \<noteq> []" by (simp add: trim_hi)
  from C10_send_without_analysis [OF h1 h2, of "''cars''" NetworkFailure send_env_1]
  show ?thesis
    by (simp add: analyzer_initial_def userMessage_analyzer_def aiMessage_def)
qed

subsection \<open>The extraction of the analysis result\<close>

lemmas lexer_defs = JSON_parse_def json_ws_def digit_def code_def wants_value_def

lemma sample_parses: "JSON_parse sample_json = Some sample_result"
  by (simp add: sample_json_def sample_result_def lexer_defs)

lemma sample_shape: "is_AnalysisResult sample_result"
  by (simp add: sample_result_def is_AnalysisResult_def one_of_def is_string_array_def
      is_string_def is_priceAnalysis_def)

lemma fallback_shape: "is_AnalysisResult (fallbackResult cat suggested)"
  by (simp add: fallbackResult_def is_AnalysisResult_def one_of_def is_string_array_def
      is_string_def is_priceAnalysis_def)

lemma parse_fallback:
  "tryParse (Some (JStr text)) = Inl e \<Longrightarrow>
   parseAnalysis cat (Some (JStr text)) = Inr (fallbackResult cat (take 300 text @ ''...''))"
  by (simp add: parseAnalysis_def truncated_def and_then_def)

lemma parse_success:
  "tryParse t = Inr v \<Longrightarrow> parseAnalysis cat t = Inr v"
  by (simp add: parseAnalysis_def)

lemma field_fallback:
  "field [''suggestedResponse''] (Inr (fallbackResult cat sug)) = Inr (Some (JStr sug))"
  "field [''urgencyLevel''] (Inr (fallbackResult cat sug)) = Inr (Some (JStr ''medium''))"
  "field [''priceAnalysis'', ''priceFlexibility''] (Inr (fallbackResult cat sug)) = Inr (Some (JStr ''medium''))"
  by (simp_all add: field_def fallbackResult_def and_then_def)

text \<open>
  C2, amended. For every reply text in which no \<^verbatim>\<open>{...}\<close> span is found, or whose span
  \<^verbatim>\<open>JSON.parse\<close> rejects, the extraction does not throw: it returns the fallback result, with
  \<^verbatim>\<open>priceFlexibility\<close> and \<^verbatim>\<open>urgencyLevel\<close> equal to \<^verbatim>\<open>medium\<close> and a \<^verbatim>\<open>suggestedResponse\<close>
  made of the first 300 characters of the reply followed by three dots.
\<close>

theorem C2_fallback_without_json:
  assumes "case jsonMatch text of None \<Rightarrow> True | Some m \<Rightarrow> JSON_parse m = None"
  shows "parseAnalysis cat (Some (JStr text)) = Inr (fallbackResult cat (take 300 text @ ''...''))
         \<and> field [''priceAnalysis'', ''priceFlexibility''] (parseAnalysis cat (Some (JStr text)))
             = Inr (Some (JStr ''medium''))
         \<and> field [''urgencyLevel''] (parseAnalysis cat (Some (JStr text)))
             = Inr (Some (JStr ''medium''))
         \<and> field [''suggestedResponse''] (parseAnalysis cat (Some (JStr text)))
             = Inr (Some (JStr (take 300 text @ ''...'')))"
proof -
  from assms have "\<exists>e. tryParse (Some (JStr text)) = Inl e"
    by (auto simp: tryParse_def split: option.splits)
  then obtain e where "tryParse (Some (JStr text)) = Inl e" ..
  then have "parseAnalysis cat (Some (JStr text)) = Inr (fallbackResult cat (take 300 text @ ''...''))"
    by (rule parse_fallback)
  then show ?thesis by (simp add: field_fallback)
qed

lemma no_match_hello: "jsonMatch ''hello'' = None"
  by (simp add: jsonMatch_def)

text \<open>
  C2, as the claim states it, fails on the suggested response: for the reply \<open>hello\<close> it is
  \<open>hello...\<close>, which is no truncation of the reply.
\<close>

theorem C2_truncation_counterexample:
  "jsonMatch ''hello'' = None
   \<and> field [''suggestedResponse''] (parseAnalysis ''cars'' (Some (JStr ''hello'')))
       = Inr (Some (JStr ''hello...''))
   \<and> \<not> prefix ''hello...'' ''hello''"
  by (simp add: no_match_hello parseAnalysis_def tryParse_def truncated_def and_then_def field_fallback)

theorem C2_fallback_without_json_witness:
  "jsonMatch ''A {brace'' = None
   \<and> parseAnalysis ''cars'' (Some (JStr ''A {brace'')) = Inr (fallbackResult ''cars'' ''A {brace...'')
   \<and> field [''urgencyLevel''] (parseAnalysis ''cars'' (Some (JStr ''A {brace''))) = Inr (Some (JStr ''medium''))"
proof -
  have m: "jsonMatch ''A {brace'' = None" by (simp add: jsonMatch_def)
  then have h: "case jsonMatch ''A {brace'' of None \<Rightarrow> True | Some m \<Rightarrow> JSON_parse m = None"
    by simp
  from C2_fallback_without_json [OF h, of "''cars''"] m show ?thesis
    by (simp add: field_fallback)
qed

lemma jsonMatch_span:
  assumes "CHR ''{'' \<notin> set pre" and "CHR ''}'' \<notin> set post"
  shows "jsonMatch (pre @ CHR ''{'' # mid @ CHR ''}'' # post) = Some (CHR ''{'' # mid @ ''}'')"
proof -
  have open_at: "dropWhile (\<lambda>c. c \<noteq> CHR ''{'') (pre @ CHR ''{'' # mid @ CHR ''}'' # post)
      = CHR ''{'' # mid @ CHR ''}'' # post"
  proof -
    have "\<forall>x\<in>set pre. x \<noteq> CHR ''{''" using assms(1) by auto
    then show ?thesis by simp
  qed
  have "dropWhile (\<lambda>c. c \<noteq> CHR ''}'') (rev (CHR ''{'' # mid @ CHR ''}'' # post))
      = CHR ''}'' # rev mid @ ''{''"
  proof -
    have "dropWhile (\<lambda>c. c \<noteq> CHR ''}'') (rev post @ CHR ''}'' # rev mid @ ''{'')
        = dropWhile (\<lambda>c. c \<noteq> CHR ''}'') (CHR ''}'' # rev mid @ ''{'')"
      by (rule dropWhile_append2) (use assms(2) in auto)
    then show ?thesis by simp
  qed
  then have close_at: "rev (dropWhile (\<lambda>c. c \<noteq> CHR ''}'') (rev (CHR ''{'' # mid @ CHR ''}'' # post)))
      = CHR ''{'' # mid @ ''}''"
    by simp
  show ?thesis
    unfolding jsonMatch_def Let_def open_at close_at by simp
qed

text \<open>
  C3, amended. When the prose before the object has no \<^verbatim>\<open>{\<close> and the prose after it has no
  \<^verbatim>\<open>}\<close>, the match is the object's text and the extraction returns what \<^verbatim>\<open>JSON.parse\<close>
  makes of it, unchanged.
\<close>

theorem C3_embedded_object_round_trip:
  assumes "CHR ''{'' \<notin> set pre" and "CHR ''}'' \<notin> set post"
    and "hd obj = CHR ''{''" and "last obj = CHR ''}''"
    and "JSON_parse obj = Some v"
  shows "jsonMatch (pre @ obj @ post) = Some obj
         \<and> parseAnalysis cat (Some (JStr (pre @ obj @ post))) = Inr v"
proof -
  have "JSON_parse [] = None" by (simp add: JSON_parse_def)
  with assms(5) have ne: "obj \<noteq> []" by auto
  then obtain r where r: "obj = CHR ''{'' # r" using assms(3) by (cases obj) auto
  with assms(4) have "r \<noteq> []" by auto
  then have "r = butlast r @ [last r]" by simp
  with r assms(4) have obj: "obj = CHR ''{'' # butlast r @ ''}''"
    by (metis last_ConsR \<open>r \<noteq> []\<close>)
  have "jsonMatch (pre @ CHR ''{'' # butlast r @ CHR ''}'' # post) = Some (CHR ''{'' # butlast r @ ''}'')"
    using assms(1,2) by (rule jsonMatch_span)
  then have m: "jsonMatch (pre @ obj @ post) = Some obj"
    using obj by (metis append_Cons append_Nil append_assoc)
  then show ?thesis using assms(5)
    by (simp add: parseAnalysis_def tryParse_def)
qed

text \<open>
  C3, as the claim states it, fails: the match runs to the last \<^verbatim>\<open>}\<close> of the reply, so prose
  with a \<^verbatim>\<open>}\<close> after a well-formed object of the right shape makes the parse fail, and the
  extraction returns the fallback (its sentiment is \<open>neutral\<close>, the object's is \<open>positive\<close>).
\<close>

theorem C3_greedy_span_counterexample:
  "JSON_parse sample_json = Some sample_result
   \<and> is_AnalysisResult sample_result
   \<and> field [''sentiment''] (parseAnalysis ''cars'' (Some (JStr (''Analysis: '' @ sample_json @ '' (ends at the }).''))))
       = Inr (Some (JStr ''neutral''))
   \<and> parseAnalysis ''cars'' (Some (JStr (''Analysis: '' @ sample_json @ '' (ends at the }).'')))
       \<noteq> Inr sample_result"
  apply (simp add: sample_parses sample_shape)
  apply (simp add: sample_json_def sample_result_def parseAnalysis_def tryParse_def jsonMatch_def lexer_defs truncated_def and_then_def field_def fallbackResult_def)
  done

theorem C3_embedded_object_round_trip_witness:
  "jsonMatch (''Analysis: '' @ sample_json @ '' Good luck!'') = Some sample_json
   \<and> parseAnalysis ''cars'' (Some (JStr (''Analysis: '' @ sample_json @ '' Good luck!''))) = Inr sample_result
   \<and> is_AnalysisResult sample_result"
proof -
  have h1: "CHR ''{'' \<notin> set ''Analysis: ''" by simp
  have h2: "CHR ''}'' \<notin> set '' Good luck!''" by simp
  have h3: "hd sample_json = CHR ''{''" by (simp add: sample_json_def)
  have h4: "last sample_json = CHR ''}''" by (simp add: sample_json_def)
  from C3_embedded_object_round_trip [OF h1 h2 h3 h4 sample_parses, of "''cars''"] sample_shape
  show ?thesis by simp
qed

lemma partial_parses: "JSON_parse partial_json = Some partial_result"
  by (simp add: partial_json_def partial_result_def lexer_defs)

lemma partial_match: "jsonMatch partial_json = Some partial_json"
  by (simp add: partial_json_def jsonMatch_def)

lemma partial_completion: "readCompletion (Response 200 partial_body) = Inr (Some (JStr partial_json))"
  by (simp add: readCompletion_def ok_def partial_body_def partial_json_def lexer_defs
      unescape_def completionContent_def)

text \<open>
  C4, as the claim states it, fails: a span that parses to an object with one field, whose
  value is outside the enum domain, is returned as it is, and \<^verbatim>\<open>analyzeConversation\<close> stores
  it as the analysis result.
\<close>

theorem C4_partial_object_counterexample:
  "parseAnalysis ''cars'' (Some (JStr partial_json)) = Inr partial_result
   \<and> \<not> is_AnalysisResult partial_result
   \<and> analysisResult (fst (analyzeConversation ''cars'' analyze_env_partial uploaded_state))
       = Some partial_result"
proof -
  have p: "parseAnalysis ''cars'' (Some (JStr partial_json)) = Inr partial_result"
    by (simp add: parseAnalysis_def tryParse_def partial_match partial_parses)
  have n: "\<not> is_AnalysisResult partial_result"
    by (simp add: partial_result_def is_AnalysisResult_def one_of_def)
  have i: "initialContent ''cars'' partial_result = Inl TypeError"
    by (simp add: initialContent_def partial_result_def and_then_def call_toLowerCase_def)
  have "analysisResult (fst (analyzeConversation ''cars'' analyze_env_partial uploaded_state))
       = Some partial_result"
    by (simp add: analyzeConversation_def uploaded_state_def analyzer_initial_def has_image_def
        analyze_env_partial_def partial_completion p i)
  with p n show ?thesis by simp
qed

text \<open>
  C4, amended. When the located span parses, the extraction returns the parsed value as it
  is, whatever its fields. The fallback is substituted only when the span does not parse (or
  none is found, C2), and the fallback has the shape of \<^verbatim>\<open>AnalysisResult\<close>.
\<close>

theorem C4_parsed_value_is_stored_unchecked:
  assumes "jsonMatch text = Some m"
  shows "(JSON_parse m = Some v \<longrightarrow> parseAnalysis cat (Some (JStr text)) = Inr v)
         \<and> (JSON_parse m = None \<longrightarrow>
              parseAnalysis cat (Some (JStr text)) = Inr (fallbackResult cat (take 300 text @ ''...''))
              \<and> is_AnalysisResult (fallbackResult cat (take 300 text @ ''...'')))"
  using assms
  by (simp add: parseAnalysis_def tryParse_def truncated_def and_then_def fallback_shape)

lemma braces_match: "jsonMatch ''{oops}'' = Some ''{oops}''"
  by (simp add: jsonMatch_def)

lemma braces_do_not_parse: "JSON_parse ''{oops}'' = None"
  by (simp add: lexer_defs)

theorem C4_parsed_value_is_stored_unchecked_witness:
  "jsonMatch partial_json = Some partial_json
   \<and> JSON_parse partial_json = Some partial_result
   \<and> parseAnalysis ''cars'' (Some (JStr partial_json)) = Inr partial_result
   \<and> jsonMatch ''{oops}'' = Some ''{oops}''
   \<and> JSON_parse ''{oops}'' = None
   \<and> parseAnalysis ''cars'' (Some (JStr ''{oops}'')) = Inr (fallbackResult ''cars'' ''{oops}...'')
   \<and> is_AnalysisResult (fallbackResult ''cars'' ''{oops}...'')"
  using C4_parsed_value_is_stored_unchecked [OF partial_match, of partial_result "''cars''"]
    C4_parsed_value_is_stored_unchecked [OF braces_match, of partial_result "''cars''"]
    partial_match partial_parses braces_match braces_do_not_parse
  by simp

subsection \<open>Upload\<close>

lemma text_chat_upload_ignores_file:
  "handleImageUpload (Some f) env s = handleImageUpload (Some g) env s"
  by (auto simp: handleImageUpload_def analyzeImage_def split: option.splits)

lemma analyzer_upload_rejects:
  "10 * 1024 * 1024 < size_file f \<Longrightarrow>
     handleImageUpload_analyzer f rd s =
       (s, [Toast ''File Too Large'' (Text ''Please upload an image smaller than 10MB.'') Destructive])"
  "size_file f \<le> 10 * 1024 * 1024 \<Longrightarrow> \<not> startsWith (type_file f) ''image/'' \<Longrightarrow>
     handleImageUpload_analyzer f rd s =
       (s, [Toast ''Invalid File Type'' (Text ''Please upload an image file (PNG, JPG, etc.).'') Destructive])"
  by (simp_all add: handleImageUpload_analyzer_def)

text \<open>
  C5. The claim holds in the analyzer and fails in the text chat, whose upload never tests
  the size or the type of the file: a text file of 15 MB is read and sent to the vision
  service, and no rejection is shown; the analyzer rejects the same file for its size before
  it reads it.
\<close>

theorem C5_text_chat_upload_is_unchecked:
  "10 * 1024 * 1024 < size_file big_text_file
   \<and> \<not> startsWith (type_file big_text_file) ''image/''
   \<and> snd (handleImageUpload (Some big_text_file) upload_env_1 chat_initial)
       = [ReadAsDataURL, ReadAsDataURL, Fetch vision_url,
          Toast ''Image Analyzed'' (Text ''Text extracted from your image successfully!'') Default]
   \<and> snd (handleImageUpload_analyzer big_text_file (Some ''data:text/plain;base64,AA'') analyzer_initial)
       = [Toast ''File Too Large'' (Text ''Please upload an image smaller than 10MB.'') Destructive]"
  by (simp add: big_text_file_def startsWith_def handleImageUpload_def analyzeImage_def
      upload_env_1_def visionText_def lexer_defs extractedText_def opt_index0_def opt_prop_def
      analysisContent_def to_string_def handleImageUpload_analyzer_def)

subsection \<open>Runs of successful sends\<close>








lemmas id_defs = toString_def digits.simps digit_char_def


lemma trim_more: "trim ''more'' = ''more''"
  by (simp add: trim_def js_whitespace_def code_def)


subsection \<open>What an operation does to the log\<close>














subsection \<open>Message ids\<close>

lemma code_digit_char: "d < 10 \<Longrightarrow> code (digit_char d) = 48 + d"
proof -
  assume "d < 10"
  then have "d = 0 \<or> d = 1 \<or> d = 2 \<or> d = 3 \<or> d = 4 \<or> d = 5 \<or> d = 6 \<or> d = 7 \<or> d = 8 \<or> d = 9"
    by arith
  then show ?thesis
    by (elim disjE) (simp_all add: digit_char_def code_def)
qed

lemma digit_char_inj:
  assumes "a < 10" and "b < 10" and "digit_char a = digit_char b"
  shows "a = b"
proof -
  have "48 + a = code (digit_char a)" using assms(1) by (simp only: code_digit_char)
  also have "\<dots> = code (digit_char b)" by (simp only: assms(3))
  also have "\<dots> = 48 + b" using assms(2) by (simp only: code_digit_char)
  finally show ?thesis by simp
qed

lemma digits_nonempty: "digits n \<noteq> []"
  by (subst digits.simps) simp

lemma digits_inj: "digits n = digits m \<Longrightarrow> n = m"
proof (induction n arbitrary: m rule: digits.induct)
  case (1 n)
  show ?case
  proof (cases "n < 10")
    case small: True
    show ?thesis
    proof (cases "m < 10")
      case True
      from "1.prems" small True have "digit_char n = digit_char m"
        by (simp add: digits.simps [of n] digits.simps [of m])
      with small True show ?thesis by (rule digit_char_inj)
    next
      case False
      with small "1.prems" digits_nonempty [of "m div 10"] show ?thesis
        by (simp add: digits.simps [of n] digits.simps [of m])
    qed
  next
    case big: False
    show ?thesis
    proof (cases "m < 10")
      case True
      with big "1.prems" digits_nonempty [of "n div 10"] show ?thesis
        by (simp add: digits.simps [of n] digits.simps [of m])
    next
      case False
      with big "1.prems" have d: "digits (n div 10) = digits (m div 10)"
        and r: "digit_char (n mod 10) = digit_char (m mod 10)"
        by (simp_all add: digits.simps [of n] digits.simps [of m])
      from "1.IH" [OF big d] have q: "n div 10 = m div 10" .
      have "n mod 10 = m mod 10"
        by (rule digit_char_inj [OF _ _ r]) simp_all
      with q show ?thesis by (metis div_mult_mod_eq)
    qed
  qed
qed

lemma minus_not_in_digits: "CHR ''-'' \<notin> set (digits n)"
proof (induction n rule: digits.induct)
  case (1 n)
  have d: "CHR ''-'' \<noteq> digit_char k" if "k < 10" for k
  proof
    assume "CHR ''-'' = digit_char k"
    then have "code (CHR ''-'') = code (digit_char k)" by (simp only:)
    also have "\<dots> = 48 + k" using that by (simp only: code_digit_char)
    finally show False by (simp add: code_def)
  qed
  show ?case
  proof (cases "n < 10")
    case True
    then show ?thesis by (simp add: digits.simps [of n] d)
  next
    case False
    with "1.IH" show ?thesis by (simp add: digits.simps [of n] d)
  qed
qed

lemma toString_inj: "toString a = toString b \<Longrightarrow> a = b"
proof -
  assume eq: "toString a = toString b"
  have no: "CHR ''-'' # xs \<noteq> digits k" for xs k
    using minus_not_in_digits [of k] by (metis list.set_intros(1))
  show ?thesis
  proof (cases "a < 0")
    case neg: True
    show ?thesis
    proof (cases "b < 0")
      case True
      with neg eq have "digits (nat (- a)) = digits (nat (- b))" by (simp add: toString_def)
      then have "nat (- a) = nat (- b)" by (rule digits_inj)
      with neg True show ?thesis by simp
    next
      case False
      with neg eq no [of "digits (nat (- a))" "nat b"] show ?thesis by (simp add: toString_def)
    qed
  next
    case pos: False
    show ?thesis
    proof (cases "b < 0")
      case True
      with pos eq no [of "digits (nat (- b))" "nat a"] show ?thesis by (simp add: toString_def)
    next
      case False
      with pos eq have "digits (nat a) = digits (nat b)" by (simp add: toString_def)
      then have "nat a = nat b" by (rule digits_inj)
      with pos False show ?thesis by simp
    qed
  qed
qed

lemma ids_lt_empty: "ids_lt b []"
  by (simp add: ids_lt_def)

lemma ids_lt_mono: "ids_lt b log \<Longrightarrow> b \<le> c \<Longrightarrow> ids_lt c log"
  unfolding ids_lt_def by (meson less_le_trans)

lemma ids_lt_snoc:
  assumes "ids_lt b log" and "b \<le> t" and "id_msg m = toString t"
  shows "ids_lt (t + 1) (log @ [m])"
proof -
  from assms(1) obtain ns where ns: "map id_msg log = map toString ns" "sorted_wrt (<) ns"
    "\<forall>n\<in>set ns. n < b"
    unfolding ids_lt_def by blast
  have "map id_msg (log @ [m]) = map toString (ns @ [t])"
    using ns(1) assms(3) by simp
  moreover have "sorted_wrt (<) (ns @ [t])"
    using ns(2,3) assms(2) by (auto simp: sorted_wrt_append)
  moreover have "\<forall>n\<in>set (ns @ [t]). n < t + 1"
    using ns(3) assms(2) by auto
  ultimately show ?thesis unfolding ids_lt_def by blast
qed

lemma ids_lt_distinct: "ids_lt b log \<Longrightarrow> distinct (map id_msg log)"
proof -
  assume "ids_lt b log"
  then obtain ns where ns: "map id_msg log = map toString ns" "sorted_wrt (<) ns"
    unfolding ids_lt_def by blast
  from ns(2) have "distinct ns" by (simp add: strict_sorted_iff)
  moreover have "inj_on toString (set ns)"
    by (rule inj_onI) (rule toString_inj)
  ultimately show ?thesis by (simp add: ns(1) distinct_map)
qed

lemma ids_lt_pair:
  assumes "ids_lt b log" and "b \<le> tu" and "tu \<le> ta"
    and "id_msg u = toString tu" and "id_msg v = toString (ta + 1)"
  shows "ids_lt (ta + 2) (log @ [u, v])"
proof -
  have "ids_lt (tu + 1) (log @ [u])"
    using assms(1,2,4) by (rule ids_lt_snoc)
  moreover have "tu + 1 \<le> ta + 1" using assms(3) by simp
  ultimately have "ids_lt (ta + 1 + 1) ((log @ [u]) @ [v])"
    using assms(5) by (rule ids_lt_snoc)
  then show ?thesis by (simp add: add.assoc)
qed

lemma chat_send_ids:
  assumes "b \<le> now_user env" and "now_user env \<le> now_ai env" and "ids_lt b (messages s)"
  shows "ids_lt (now_ai env + 2) (messages (fst (handleSendMessage env s)))"
proof (cases "trim (inputMessage s) = [] \<and> \<not> has_image (uploadedImage s)")
  case True
  then have "handleSendMessage env s = (s, [])" by (simp add: chat_send_noop)
  with assms show ?thesis by (simp add: ids_lt_mono)
next
  case False
  then have g: "trim (inputMessage s) \<noteq> [] \<or> has_image (uploadedImage s)" by blast
  show ?thesis
  proof (cases "fst (generateAIResponse (inputMessage s) (upstream env))")
    case (Inl e)
    have "ids_lt (now_user env + 1) (messages s @ [userMessage env s])"
      using assms(3,1) by (rule ids_lt_snoc) (simp add: userMessage_def)
    then have "ids_lt (now_ai env + 2) (messages s @ [userMessage env s])"
      using assms(2) by (simp add: ids_lt_mono)
    then show ?thesis by (simp add: chat_send_failure [OF g Inl])
  next
    case (Inr v)
    have "ids_lt (now_ai env + 2) (messages s @ [userMessage env s, aiMessage env v])"
      using assms(3,1,2) by (rule ids_lt_pair) (simp_all add: userMessage_def aiMessage_def)
    then show ?thesis by (simp add: chat_send_success [OF g Inr])
  qed
qed

lemma analyzer_send_ids:
  assumes "b \<le> now_user env" and "now_user env \<le> now_ai env" and "ids_lt b (chatMessages a)"
  shows "ids_lt (now_ai env + 2) (chatMessages (fst (handleSendMessage_analyzer cat env a)))"
proof (cases "trim (inputMessage a) = []")
  case True
  then have "handleSendMessage_analyzer cat env a = (a, [])" by (simp add: analyzer_send_noop)
  with assms show ?thesis by (simp add: ids_lt_mono)
next
  case False
  obtain v fx where
    v: "generateContextualResponse cat (inputMessage a) (analysisResult a) (upstream env) = (Inr v, fx)"
    using contextual_never_throws by blast
  have "ids_lt (now_ai env + 2) (chatMessages a @ [userMessage_analyzer env a, aiMessage env v])"
    using assms(3,1,2) by (rule ids_lt_pair) (simp_all add: userMessage_analyzer_def aiMessage_def)
  then show ?thesis by (simp add: analyzer_send_appends [OF False v])
qed

lemma chat_upload_ids:
  assumes "b \<le> now_analysis env" and "ids_lt b (messages s)"
  shows "ids_lt (now_analysis env + 1) (messages (fst (handleImageUpload event env s)))"
proof -
  have keep: "ids_lt (now_analysis env + 1) (messages s)"
    using assms by (simp add: ids_lt_mono)
  have grow: "ids_lt (now_analysis env + 1) (messages s @ [analysisMessage env t])" for t
    using assms(2,1) by (rule ids_lt_snoc) (simp add: analysisMessage_def)
  show ?thesis
    using keep grow
    by (auto simp: handleImageUpload_def analyzeImage_def split: option.splits sum.splits)
qed

lemma analyze_ids:
  assumes "b \<le> now_initial env" and "ids_lt b (chatMessages a)"
  shows "ids_lt (now_initial env + 1) (chatMessages (fst (analyzeConversation cat env a)))"
proof -
  have keep: "ids_lt (now_initial env + 1) (chatMessages a)"
    using assms by (simp add: ids_lt_mono)
  have "ids_lt (now_initial env + 1) ([] @ [initialMessage env t])" for t
    using ids_lt_empty [of "now_initial env"] by (rule ids_lt_snoc) (simp_all add: initialMessage_def)
  then have fresh: "ids_lt (now_initial env + 1) [initialMessage env t]" for t by simp
  show ?thesis
    using keep fresh by (auto simp: analyzeConversation_def split: sum.splits)
qed

lemma chat_step_ids:
  assumes "chat_clock b e = Some b'" and "ids_lt b (messages s)"
  shows "ids_lt b' (messages (fst (chat_step e s)))"
proof (cases e)
  case (Send env)
  with assms show ?thesis
    by (auto simp: chat_clock_def chat_send_ids split: if_splits)
next
  case (Upload event env)
  with assms show ?thesis
    by (auto simp: chat_clock_def chat_upload_ids split: if_splits)
qed (use assms in \<open>simp_all add: chat_clock_def handleVoiceRecording_def voiceTimeout_def\<close>)

lemma upload_analyzer_keeps_log:
  "chatMessages (fst (handleImageUpload_analyzer f rd a)) = chatMessages a"
  by (simp add: handleImageUpload_analyzer_def split: option.splits)

lemma analyzer_step_ids:
  assumes "analyzer_clock b e = Some b'" and "ids_lt b (chatMessages a)"
  shows "ids_lt b' (chatMessages (fst (analyzer_step cat e a)))"
proof (cases e)
  case (SendA env)
  with assms show ?thesis
    by (auto simp: analyzer_clock_def analyzer_send_ids split: if_splits)
next
  case (Analyze env)
  with assms show ?thesis
    by (auto simp: analyzer_clock_def analyze_ids split: if_splits)
qed (use assms in \<open>simp_all add: analyzer_clock_def handleVoiceRecording_analyzer_def
      voiceTimeout_analyzer_def handleFileSelect_def handleDrop_def handleDrag_def
      upload_analyzer_keeps_log split: option.splits\<close>)

lemma chat_run_ids:
  "chat_spaced b es \<Longrightarrow> ids_lt b (messages s) \<Longrightarrow> \<exists>b'. ids_lt b' (messages (chat_run es s))"
proof (induction es arbitrary: b s)
  case Nil
  then show ?case by auto
next
  case (Cons e es)
  from Cons.prems(1) obtain b' where c: "chat_clock b e = Some b'" and r: "chat_spaced b' es"
    by (auto split: option.splits)
  from c Cons.prems(2) have "ids_lt b' (messages (fst (chat_step e s)))"
    by (rule chat_step_ids)
  from Cons.IH [OF r this] show ?case by simp
qed

lemma analyzer_run_ids:
  "analyzer_spaced b es \<Longrightarrow> ids_lt b (chatMessages a) \<Longrightarrow>
   \<exists>b'. ids_lt b' (chatMessages (analyzer_run cat es a))"
proof (induction es arbitrary: b a)
  case Nil
  then show ?case by auto
next
  case (Cons e es)
  from Cons.prems(1) obtain b' where c: "analyzer_clock b e = Some b'" and r: "analyzer_spaced b' es"
    by (auto split: option.splits)
  from c Cons.prems(2) have "ids_lt b' (chatMessages (fst (analyzer_step cat e a)))"
    by (rule analyzer_step_ids)
  from Cons.IH [OF r this] show ?case by simp
qed

text \<open>
  C7, amended. In a session that starts with an empty log and whose clock is spaced for the
  ids, the ids of the log are pairwise distinct after every operation, in both components.
\<close>

theorem C7_ids_distinct_when_clock_spaced:
  assumes "messages s = []" and "chat_spaced b es"
    and "chatMessages a = []" and "analyzer_spaced b' es'"
  shows "distinct (map id_msg (messages (chat_run es s)))
         \<and> distinct (map id_msg (chatMessages (analyzer_run cat es' a)))"
proof -
  have "ids_lt b (messages s)" using assms(1) by (simp add: ids_lt_empty)
  with assms(2) obtain c where "ids_lt c (messages (chat_run es s))"
    using chat_run_ids by blast
  then have one: "distinct (map id_msg (messages (chat_run es s)))"
    by (rule ids_lt_distinct)
  have "ids_lt b' (chatMessages a)" using assms(3) by (simp add: ids_lt_empty)
  with assms(4) obtain c' where "ids_lt c' (chatMessages (analyzer_run cat es' a))"
    using analyzer_run_ids by blast
  then have "distinct (map id_msg (chatMessages (analyzer_run cat es' a)))"
    by (rule ids_lt_distinct)
  with one show ?thesis by simp
qed

lemma colliding_ids:
  "map id_msg (chatMessages (analyzer_run ''cars''
      [TypeA ''hi'', SendA send_env_1, TypeA ''more'', SendA send_env_2] analyzer_initial))
     = [''1000'', ''1001'', ''1001'', ''1002'']"
  by (simp add: analyzer_initial_def handleSendMessage_analyzer_def trim_hi trim_more
      generateContextualResponse_def userMessage_analyzer_def aiMessage_def send_env_1_def
      send_env_2_def id_defs)

text \<open>
  C7, as the claim states it, fails: an id is the clock reading of its entry (plus one for an
  assistant entry), so a send one millisecond after an answered send gives its user entry the
  id of the assistant entry before it.
\<close>

theorem C7_close_sends_counterexample:
  "map id_msg (chatMessages (analyzer_run ''cars''
      [TypeA ''hi'', SendA send_env_1, TypeA ''more'', SendA send_env_2] analyzer_initial))
     = [''1000'', ''1001'', ''1001'', ''1002'']
   \<and> \<not> distinct (map id_msg (chatMessages (analyzer_run ''cars''
      [TypeA ''hi'', SendA send_env_1, TypeA ''more'', SendA send_env_2] analyzer_initial)))"
  unfolding colliding_ids by simp

theorem C7_ids_distinct_when_clock_spaced_witness:
  "chat_spaced 0 (chat_sends two_sends)
   \<and> analyzer_spaced 0 (analyzer_sends two_sends)
   \<and> distinct (map id_msg (messages (chat_run (chat_sends two_sends) chat_initial)))
   \<and> distinct (map id_msg
        (chatMessages (analyzer_run ''cars'' (analyzer_sends two_sends) analyzer_initial)))"
proof -
  have h1: "messages chat_initial = []" by (simp add: chat_initial_def)
  have h2: "chat_spaced 0 (chat_sends two_sends)"
    by (simp add: two_sends_def chat_clock_def send_env_ok1_def send_env_ok2_def)
  have h3: "chatMessages analyzer_initial = []" by (simp add: analyzer_initial_def)
  have h4: "analyzer_spaced 0 (analyzer_sends two_sends)"
    by (simp add: two_sends_def analyzer_clock_def send_env_ok1_def send_env_ok2_def)
  from C7_ids_distinct_when_clock_spaced [OF h1 h2 h3 h4, of "''cars''"] h2 h4
  show ?thesis by simp
qed

end
